theory Spec2Isabelle
  imports Main "HOL-Library.Sublist" "HOL-Library.Multiset"
begin

section \<open>The daily performance report (dailyPerformanceReportService)\<close>

subsection \<open>Time\<close>

text \<open>
  An instant is a JavaScript time value: milliseconds since the epoch. The runtime's
  time zone is a fixed offset in milliseconds (no daylight-saving changes), so a day has
  86400000 of them. \<open>setHours0 tz d\<close> is \<^verbatim>\<open>d.setHours(0, 0, 0, 0)\<close>, the local midnight
  at or before \<open>d\<close>, and \<open>setHours235959999 tz d\<close> is \<^verbatim>\<open>d.setHours(23, 59, 59, 999)\<close>.
\<close>

type_synonym instant = int

definition ms_per_day :: int where
  "ms_per_day = 86400000"

definition setHours0 :: "int \<Rightarrow> instant \<Rightarrow> instant" where
  "setHours0 tz d = d - (d + tz) mod ms_per_day"

definition setHours235959999 :: "int \<Rightarrow> instant \<Rightarrow> instant" where
  "setHours235959999 tz d = setHours0 tz d + (ms_per_day - 1)"

text \<open>
  \<^verbatim>\<open>new Date(v)\<close> for a column value \<open>v\<close> that is either a timestamp or null:
  \<^verbatim>\<open>new Date(null)\<close> is the epoch.
\<close>

definition new_Date :: "instant option \<Rightarrow> instant" where
  "new_Date v = (case v of None \<Rightarrow> 0 | Some d \<Rightarrow> d)"

subsection \<open>Rows and queries\<close>

record task_row =
  user_id :: string
  status :: string
  updated_at :: instant
  due_date :: "instant option"

record deleted_row =
  task_type :: string
  deleted_at :: instant

record user_row =
  row_id :: string
  row_name :: string
  row_email :: string
  is_active :: bool

datatype user_table = Members | Admins | ProjectManagers

text \<open>
  The queries the service sends. Each comes back as \<^verbatim>\<open>{ data, error }\<close>: rows, or an
  error with \<^verbatim>\<open>data\<close> null. Which queries fail is part of the backend.
\<close>

datatype query = TasksUpdated | DeletedTasks | UsersIn user_table | ActiveUsers user_table

datatype 'a pg_result = Rows "'a list" | QueryError string

record backend =
  tasks_tbl :: "task_row list"
  deleted_tasks_tbl :: "deleted_row list"
  users_tbl :: "user_table \<Rightarrow> user_row list"
  query_error :: "query \<Rightarrow> string option"

definition run_query :: "backend \<Rightarrow> query \<Rightarrow> 'a list \<Rightarrow> 'a pg_result" where
  "run_query be q rows = (case query_error be q of Some e \<Rightarrow> QueryError e | None \<Rightarrow> Rows rows)"

text \<open>\<^verbatim>\<open>data || []\<close>\<close>

definition data_or_empty :: "'a pg_result \<Rightarrow> 'a list" where
  "data_or_empty r = (case r of Rows xs \<Rightarrow> xs | QueryError e \<Rightarrow> [])"

text \<open>\<^verbatim>\<open>from('tasks').select('*').gte('updated_at', lo).lte('updated_at', hi)\<close>\<close>

definition select_tasks :: "backend \<Rightarrow> instant \<Rightarrow> instant \<Rightarrow> task_row pg_result" where
  "select_tasks be lo hi =
     run_query be TasksUpdated (filter (\<lambda>t. lo \<le> updated_at t \<and> updated_at t \<le> hi) (tasks_tbl be))"

text \<open>
  \<^verbatim>\<open>from('deleted_tasks').select('*').eq('task_type', 'regular')
     .gte('deleted_at', lo).lte('deleted_at', hi)\<close>
\<close>

definition select_deleted :: "backend \<Rightarrow> instant \<Rightarrow> instant \<Rightarrow> deleted_row pg_result" where
  "select_deleted be lo hi =
     run_query be DeletedTasks
       (filter (\<lambda>d. task_type d = ''regular'' \<and> lo \<le> deleted_at d \<and> deleted_at d \<le> hi)
          (deleted_tasks_tbl be))"

text \<open>\<^verbatim>\<open>from(table).select('id, name, email').in('id', userIds)\<close>\<close>

definition select_users_in :: "backend \<Rightarrow> user_table \<Rightarrow> string list \<Rightarrow> user_row pg_result" where
  "select_users_in be tb ids =
     run_query be (UsersIn tb) (filter (\<lambda>u. row_id u \<in> set ids) (users_tbl be tb))"

text \<open>\<^verbatim>\<open>from(table).select('id, name, email').eq('is_active', true)\<close>\<close>

definition select_active :: "backend \<Rightarrow> user_table \<Rightarrow> user_row pg_result" where
  "select_active be tb = run_query be (ActiveUsers tb) (filter is_active (users_tbl be tb))"

subsection \<open>generateDailyReport\<close>

record user_stats =
  userId :: string
  userName :: string
  userEmail :: string
  userTasks :: nat
  completed :: nat
  pending :: nat
  blocked :: nat

text \<open>
  \<open>userTasks\<close> is the entry's \<^verbatim>\<open>totalTasks\<close>; the report has a field of that name too.
\<close>

record report =
  date :: string
  totalTasks :: nat
  pendingTasks :: nat
  completedTasks :: nat
  blockedTasks :: nat
  deletedTasks :: nat
  byUser :: "user_stats list"

text \<open>The filter of \<^verbatim>\<open>blockedTasks\<close>: not completed and \<^verbatim>\<open>new Date(task.due_date) < now\<close>.\<close>

definition is_blocked :: "instant \<Rightarrow> task_row \<Rightarrow> bool" where
  "is_blocked now t = (if status t = ''completed'' then False else new_Date (due_date t) < now)"

text \<open>\<^verbatim>\<open>[...new Set(xs)]\<close>: the first occurrence of each value, in order.\<close>

definition unique :: "'a list \<Rightarrow> 'a list" where
  "unique xs = rev (remdups (rev xs))"

text \<open>
  \<^verbatim>\<open>userMap\<close>: a \<^verbatim>\<open>Map\<close> from id to name and email, filled from the members, then the
  admins, then the project managers, a later row replacing an earlier one of the same id.
\<close>

definition userMap_set :: "(string \<rightharpoonup> string \<times> string) \<Rightarrow> user_row \<Rightarrow> (string \<rightharpoonup> string \<times> string)" where
  "userMap_set m u = m(row_id u \<mapsto> (row_name u, row_email u))"

definition build_userMap :: "user_row list \<Rightarrow> (string \<rightharpoonup> string \<times> string)" where
  "build_userMap us = foldl userMap_set Map.empty us"

text \<open>
  \<^verbatim>\<open>userBreakdown\<close>: a \<^verbatim>\<open>Map\<close> from user id to a mutable statistics object, kept as the
  list of its values in insertion order. \<open>has_user\<close> is \<^verbatim>\<open>Map.has\<close>, \<open>modify_user\<close> applies
  an update to the object \<^verbatim>\<open>Map.get\<close> returns.
\<close>

definition has_user :: "user_stats list \<Rightarrow> string \<Rightarrow> bool" where
  "has_user m k = (k \<in> set (map userId m))"

fun modify_user :: "string \<Rightarrow> (user_stats \<Rightarrow> user_stats) \<Rightarrow> user_stats list \<Rightarrow> user_stats list" where
  "modify_user k f [] = []"
| "modify_user k f (s # ss) = (if userId s = k then f s # ss else s # modify_user k f ss)"

definition new_stats :: "(string \<rightharpoonup> string \<times> string) \<Rightarrow> string \<Rightarrow> user_stats" where
  "new_stats um k =
     (let userData = (case um k of Some d \<Rightarrow> d | None \<Rightarrow> (''Unknown'', ''''))
      in \<lparr>userId = k, userName = fst userData, userEmail = snd userData,
          userTasks = 0, completed = 0, pending = 0, blocked = 0\<rparr>)"

definition count_task :: "instant \<Rightarrow> task_row \<Rightarrow> user_stats \<Rightarrow> user_stats" where
  "count_task now t s =
     (let s1 = s\<lparr>userTasks := userTasks s + 1\<rparr>
      in if status t = ''completed'' then s1\<lparr>completed := completed s1 + 1\<rparr>
         else (let s2 = s1\<lparr>pending := pending s1 + 1\<rparr>
               in if new_Date (due_date t) < now then s2\<lparr>blocked := blocked s2 + 1\<rparr> else s2))"

text \<open>The body of \<^verbatim>\<open>tasks.forEach\<close>.\<close>

definition tally :: "(string \<rightharpoonup> string \<times> string) \<Rightarrow> instant \<Rightarrow> user_stats list \<Rightarrow> task_row \<Rightarrow> user_stats list" where
  "tally um now m t =
     (let k = user_id t;
          m1 = (if \<not> has_user m k then m @ [new_stats um k] else m)
      in modify_user k (count_task now t) m1)"

text \<open>
  The runtime: its time zone offset and \<^verbatim>\<open>d.toISOString().split('T')[0]\<close>.
\<close>

record runtime =
  tz_offset :: int
  iso_date :: "instant \<Rightarrow> string"

text \<open>
  \<open>generateDailyReport rt be t0 now\<close>: \<open>t0\<close> is the instant of the first \<^verbatim>\<open>new Date()\<close>
  (the day window comes from it), \<open>now\<close> that of the second one, taken after the two
  range queries. A failing tasks query is thrown on (\<open>Inl\<close>); a failing deleted-tasks
  query is logged and the report goes on with no deleted rows; a failing user lookup
  contributes no names.
\<close>

definition generateDailyReport :: "runtime \<Rightarrow> backend \<Rightarrow> instant \<Rightarrow> instant \<Rightarrow> string + report" where
  "generateDailyReport rt be t0 now =
     (let today = setHours0 (tz_offset rt) t0;
          todayEnd = setHours235959999 (tz_offset rt) today
      in case select_tasks be today todayEnd of
           QueryError e \<Rightarrow> Inl e
         | Rows tasks \<Rightarrow>
             (let deleted = data_or_empty (select_deleted be today todayEnd);
                  userIds = unique (map user_id tasks);
                  um = build_userMap
                         (data_or_empty (select_users_in be Members userIds) @
                          data_or_empty (select_users_in be Admins userIds) @
                          data_or_empty (select_users_in be ProjectManagers userIds));
                  userBreakdown = foldl (tally um now) [] tasks
              in Inr \<lparr>date = iso_date rt today,
                      totalTasks = length tasks,
                      pendingTasks = length (filter (\<lambda>t. status t \<noteq> ''completed'') tasks),
                      completedTasks = length (filter (\<lambda>t. status t = ''completed'') tasks),
                      blockedTasks = length (filter (is_blocked now) tasks),
                      deletedTasks = length deleted,
                      byUser = userBreakdown\<rparr>))"

subsection \<open>Reading the report\<close>

text \<open>
  \<open>stats_of m k\<close> is \<^verbatim>\<open>userBreakdown.get(k)\<close>, and \<open>tally_of fld m k\<close> the value of
  one counter of that entry, 0 when there is none.
\<close>

definition stats_of :: "user_stats list \<Rightarrow> string \<Rightarrow> user_stats option" where
  "stats_of m k = find (\<lambda>s. userId s = k) m"

definition tally_of :: "(user_stats \<Rightarrow> nat) \<Rightarrow> user_stats list \<Rightarrow> string \<Rightarrow> nat" where
  "tally_of fld m k = (case stats_of m k of None \<Rightarrow> 0 | Some s \<Rightarrow> fld s)"

text \<open>
  What the report is meant to count. Two instants are on the same day when they have the
  same local day number; the tasks of today are the rows of \<^verbatim>\<open>tasks\<close> updated on the
  day of \<open>t0\<close>, the deletions of today the \<^verbatim>\<open>regular\<close> rows of \<^verbatim>\<open>deleted_tasks\<close>
  deleted on that day. A task is overdue at \<open>now\<close> when it is not completed and has a
  due date earlier than \<open>now\<close>; a task without a due date is not overdue.
\<close>

definition same_day :: "int \<Rightarrow> instant \<Rightarrow> instant \<Rightarrow> bool" where
  "same_day tz x t0 = ((x + tz) div ms_per_day = (t0 + tz) div ms_per_day)"

definition tasks_today :: "runtime \<Rightarrow> backend \<Rightarrow> instant \<Rightarrow> task_row list" where
  "tasks_today rt be t0 = filter (\<lambda>t. same_day (tz_offset rt) (updated_at t) t0) (tasks_tbl be)"

definition deleted_today :: "runtime \<Rightarrow> backend \<Rightarrow> instant \<Rightarrow> deleted_row list" where
  "deleted_today rt be t0 =
     filter (\<lambda>d. task_type d = ''regular'' \<and> same_day (tz_offset rt) (deleted_at d) t0)
       (deleted_tasks_tbl be)"

definition overdue :: "instant \<Rightarrow> task_row \<Rightarrow> bool" where
  "overdue now t =
     (status t \<noteq> ''completed'' \<and> (case due_date t of None \<Rightarrow> False | Some d \<Rightarrow> d < now))"

text \<open>
  A small backend: the day of the report is 1970-01-02 (UTC), three of the four tasks were
  updated on it, and one regular task was deleted on it. \<open>deleted_unreadable\<close> is the same
  backend with the \<^verbatim>\<open>deleted_tasks\<close> query failing.
\<close>

definition example_runtime :: runtime where
  "example_runtime = \<lparr>tz_offset = 0, iso_date = (\<lambda>d. if d = 86400000 then ''1970-01-02'' else ''?'')\<rparr>"

definition example_users :: "user_table \<Rightarrow> user_row list" where
  "example_users tb =
     (case tb of
        Members \<Rightarrow> [\<lparr>row_id = ''u1'', row_name = ''Ann'', row_email = ''ann@example.org'', is_active = True\<rparr>,
                    \<lparr>row_id = ''u3'', row_name = ''Cy'', row_email = ''cy@example.org'', is_active = False\<rparr>]
      | Admins \<Rightarrow> [\<lparr>row_id = ''a1'', row_name = ''Root'', row_email = ''root@example.org'', is_active = True\<rparr>]
      | ProjectManagers \<Rightarrow> [\<lparr>row_id = ''u2'', row_name = ''Bob'', row_email = ''bob@example.org'', is_active = True\<rparr>])"

definition example_backend :: backend where
  "example_backend =
     \<lparr>tasks_tbl =
        [\<lparr>user_id = ''u1'', status = ''completed'', updated_at = 86400005, due_date = Some 100\<rparr>,
         \<lparr>user_id = ''u2'', status = ''in_progress'', updated_at = 86400010, due_date = Some 100\<rparr>,
         \<lparr>user_id = ''u1'', status = ''pending'', updated_at = 86400020, due_date = Some 99000000\<rparr>,
         \<lparr>user_id = ''u2'', status = ''pending'', updated_at = 5, due_date = Some 100\<rparr>],
      deleted_tasks_tbl =
        [\<lparr>task_type = ''regular'', deleted_at = 86400030\<rparr>,
         \<lparr>task_type = ''daily'', deleted_at = 86400031\<rparr>],
      users_tbl = example_users,
      query_error = (\<lambda>q. None)\<rparr>"

definition deleted_unreadable :: backend where
  "deleted_unreadable =
     example_backend\<lparr>query_error := (\<lambda>q. if q = DeletedTasks then Some ''permission denied'' else None)\<rparr>"

text \<open>A backend whose only task is pending and has no due date.\<close>

definition no_due_date :: backend where
  "no_due_date =
     \<lparr>tasks_tbl =
        [\<lparr>user_id = ''u1'', status = ''pending'', updated_at = 86400005, due_date = None\<rparr>],
      deleted_tasks_tbl = [],
      users_tbl = example_users,
      query_error = (\<lambda>q. None)\<rparr>"

definition example_report :: report where
  "example_report =
     \<lparr>date = ''1970-01-02'', totalTasks = 3, pendingTasks = 2,
        completedTasks = 1, blockedTasks = 1, deletedTasks = 1,
        byUser =
          [\<lparr>userId = ''u1'', userName = ''Ann'', userEmail = ''ann@example.org'',
              userTasks = 2, completed = 1, pending = 1, blocked = 0\<rparr>,
           \<lparr>userId = ''u2'', userName = ''Bob'', userEmail = ''bob@example.org'',
              userTasks = 1, completed = 0, pending = 1, blocked = 1\<rparr>]\<rparr>"

section \<open>The digest (formatReportMessage)\<close>

text \<open>
  Strings are byte strings in UTF-8; the pictographs of the source are written out as
  their bytes.
\<close>

definition calendar :: string where
  "calendar = [CHR 0xF0, CHR 0x9F, CHR 0x93, CHR 0x85]"

definition chart :: string where
  "chart = [CHR 0xF0, CHR 0x9F, CHR 0x93, CHR 0x88]"

definition bullet :: string where
  "bullet = [CHR 0xE2, CHR 0x80, CHR 0xA2]"

definition check_mark :: string where
  "check_mark = [CHR 0xE2, CHR 0x9C, CHR 0x85]"

definition hourglass :: string where
  "hourglass = [CHR 0xE2, CHR 0x8F, CHR 0xB3]"

definition no_entry :: string where
  "no_entry = [CHR 0xF0, CHR 0x9F, CHR 0x9A, CHR 0xAB]"

definition wastebasket :: string where
  "wastebasket = [CHR 0xF0, CHR 0x9F, CHR 0x97, CHR 0x91, CHR 0xEF, CHR 0xB8, CHR 0x8F]"

definition trophy :: string where
  "trophy = [CHR 0xF0, CHR 0x9F, CHR 0x8F, CHR 0x86]"

definition bar_chart :: string where
  "bar_chart = [CHR 0xF0, CHR 0x9F, CHR 0x93, CHR 0x8A]"

text \<open>A count in a template literal: its decimal digits.\<close>

fun to_string :: "nat \<Rightarrow> string" where
  "to_string n =
     (if n < 10 then [char_of (48 + n)] else to_string (n div 10) @ [char_of (48 + n mod 10)])"

text \<open>\<^verbatim>\<open>lines.join(sep)\<close>\<close>

fun join :: "string \<Rightarrow> string list \<Rightarrow> string" where
  "join sep [] = []"
| "join sep [l] = l"
| "join sep (l # l' # ls) = l @ sep @ join sep (l' # ls)"

text \<open>
  \<^verbatim>\<open>[...byUser].sort((a, b) => b.completed - a.completed).slice(0, 5)\<close>: the sort is
  stable, so it is the stable sort on the negated count.
\<close>

definition sortedUsers :: "report \<Rightarrow> user_stats list" where
  "sortedUsers r = take 5 (sort_key (\<lambda>u. - int (completed u)) (byUser r))"

text \<open>The line pushed for the user at \<open>index\<close>.\<close>

definition performer_line :: "nat \<Rightarrow> user_stats \<Rightarrow> string" where
  "performer_line index u =
     to_string (index + 1) @ ''. '' @ userName u @ '': '' @ to_string (completed u) @ ''/'' @
     to_string (userTasks u) @ '' completed''"

definition report_lines :: "report \<Rightarrow> string list" where
  "report_lines r =
     (let lines =
        [calendar @ '' Date: '' @ date r,
         '''',
         chart @ '' Overall Performance:'',
         bullet @ '' Total Tasks Updated: '' @ to_string (totalTasks r),
         bullet @ '' '' @ check_mark @ '' Completed: '' @ to_string (completedTasks r),
         bullet @ '' '' @ hourglass @ '' Pending: '' @ to_string (pendingTasks r),
         bullet @ '' '' @ no_entry @ '' Blocked: '' @ to_string (blockedTasks r),
         bullet @ '' '' @ wastebasket @ '' Deleted: '' @ to_string (deletedTasks r),
         '''']
      in if length (byUser r) > 0
         then lines @ [trophy @ '' Top Performers Today:''] @
              map (\<lambda>(index, u). performer_line index u) (enumerate 0 (sortedUsers r))
         else lines)"

definition formatReportMessage :: "report \<Rightarrow> string" where
  "formatReportMessage r = join [CHR 0x0A] (report_lines r)"

text \<open>
  What a number in the digest is meant to be: its decimal numeral, that is, a non-empty
  string of digits without a leading zero (the numeral of zero apart) whose value is the
  number.
\<close>

definition is_digit :: "char \<Rightarrow> bool" where
  "is_digit c = (48 \<le> (of_char c :: nat) \<and> (of_char c :: nat) \<le> 57)"

definition digits_value :: "string \<Rightarrow> nat" where
  "digits_value s = foldl (\<lambda>a c. 10 * a + (of_char c - 48)) 0 s"

definition decimal :: "nat \<Rightarrow> string \<Rightarrow> bool" where
  "decimal n s =
     (s \<noteq> [] \<and> list_all is_digit s \<and> (s = ''0'' \<or> hd s \<noteq> CHR ''0'') \<and> digits_value s = n)"

section \<open>Sending the report (sendDailyReportToAllUsers)\<close>

record notification =
  n_user_id :: string
  title :: string
  message :: string
  n_type :: string
  is_read :: bool
  created_at :: string

text \<open>
  The \<^verbatim>\<open>notifications\<close> table together with the insert requests it has received, in
  order. \<open>ins batch\<close> is the error an insert of \<open>batch\<close> comes back with, if any.
\<close>

record notif_store =
  stored :: "notification list"
  requests :: "notification list list"

definition batchSize :: nat where
  "batchSize = 100"

text \<open>\<^verbatim>\<open>xs.slice(i, j)\<close> for \<open>i \<le> j\<close>\<close>

definition slice :: "'a list \<Rightarrow> nat \<Rightarrow> nat \<Rightarrow> 'a list" where
  "slice xs i j = take (j - i) (drop i xs)"

text \<open>
  One round of the loop: the batch is sent; a failing insert is logged and stores
  nothing.
\<close>

definition insert_batch ::
  "(notification list \<Rightarrow> string option) \<Rightarrow> notification list \<Rightarrow> notif_store \<Rightarrow> notif_store" where
  "insert_batch ins batch st =
     (let st1 = st\<lparr>requests := requests st @ [batch]\<rparr>
      in case ins batch of
           Some e \<Rightarrow> st1
         | None \<Rightarrow> st1\<lparr>stored := stored st1 @ batch\<rparr>)"

text \<open>\<^verbatim>\<open>for (let i = 0; i < notifications.length; i += batchSize)\<close>, from \<open>i\<close> on.\<close>

function insert_loop ::
  "(notification list \<Rightarrow> string option) \<Rightarrow> notification list \<Rightarrow> nat \<Rightarrow> notif_store \<Rightarrow> notif_store" where
  "insert_loop ins notifications i st =
     (if i < length notifications
      then insert_loop ins notifications (i + batchSize)
             (insert_batch ins (slice notifications i (i + batchSize)) st)
      else st)"
  by pat_completeness auto
termination
  by (relation "measure (\<lambda>(ins, notifications, i, st). length notifications - i)")
     (auto simp: batchSize_def)

text \<open>The notification made for the user at position \<open>k\<close>; \<open>clock k\<close> is its timestamp.\<close>

definition notification_for :: "report \<Rightarrow> (nat \<Rightarrow> string) \<Rightarrow> nat \<Rightarrow> user_row \<Rightarrow> notification" where
  "notification_for r clock k user =
     \<lparr>n_user_id = row_id user,
      title = bar_chart @ '' Daily Performance Report - '' @ date r,
      message = formatReportMessage r,
      n_type = ''report'',
      is_read = False,
      created_at = clock k\<rparr>"

text \<open>
  \<open>sendDailyReportToAllUsers\<close>: an error of \<open>generateDailyReport\<close> is thrown on; a
  recipient query that fails contributes no users.
\<close>

definition sendDailyReportToAllUsers ::
  "runtime \<Rightarrow> backend \<Rightarrow> (notification list \<Rightarrow> string option) \<Rightarrow> instant \<Rightarrow> instant \<Rightarrow>
   (nat \<Rightarrow> string) \<Rightarrow> notif_store \<Rightarrow> string + notif_store" where
  "sendDailyReportToAllUsers rt be ins t0 now clock st =
     (case generateDailyReport rt be t0 now of
        Inl e \<Rightarrow> Inl e
      | Inr r \<Rightarrow>
          (let allUsers =
                 data_or_empty (select_active be Members) @
                 data_or_empty (select_active be ProjectManagers) @
                 data_or_empty (select_active be Admins);
               notifications =
                 map (\<lambda>(k, user). notification_for r clock k user) (enumerate 0 allUsers)
           in Inr (insert_loop ins notifications 0 st)))"

text \<open>
  The recipients meant: the active members, the active project managers and the active
  admins. \<open>members_unreadable\<close> is the example backend with the members query of
  \<open>sendDailyReportToAllUsers\<close> failing; \<open>no_insert_error\<close> lets every insert succeed.
\<close>

definition active_recipients :: "backend \<Rightarrow> user_row list" where
  "active_recipients be =
     filter is_active (users_tbl be Members) @
     filter is_active (users_tbl be ProjectManagers) @
     filter is_active (users_tbl be Admins)"

definition members_unreadable :: backend where
  "members_unreadable =
     example_backend\<lparr>query_error :=
       (\<lambda>q. if q = ActiveUsers Members then Some ''permission denied'' else None)\<rparr>"

definition no_insert_error :: "notification list \<Rightarrow> string option" where
  "no_insert_error batch = None"

definition empty_store :: notif_store where
  "empty_store = \<lparr>stored = [], requests = []\<rparr>"

definition example_clock :: "nat \<Rightarrow> string" where
  "example_clock k = ''1970-01-02T01:00:00.200Z''"

section \<open>Task webhooks (webhookSettingsService, webhookService)\<close>

text \<open>
  An awaited call either resolves to a value or rejects (throws). A \<^verbatim>\<open>maybeSingle()\<close>
  query resolves to \<^verbatim>\<open>{ data, error }\<close>, each of them possibly null.
\<close>

datatype 'a awaited = Resolved 'a | Rejected string

record 'a maybe_single =
  data :: "'a option"
  error :: "string option"

record setting_value =
  enabled :: bool
  url :: string

text \<open>
  A row of \<^verbatim>\<open>webhook_settings\<close>. Its \<^verbatim>\<open>setting_value\<close> is a JSON column, read with
  \<^verbatim>\<open>?.\<close>, so it may be missing; a missing \<^verbatim>\<open>enabled\<close> or \<^verbatim>\<open>url\<close> is as falsy as
  \<open>False\<close> and the empty string.
\<close>

record WebhookSetting =
  ws_id :: string
  setting_key :: string
  setting_value :: "setting_value option"
  ws_description :: string
  ws_created_at :: string
  ws_updated_at :: string

definition default_url :: string where
  "default_url = ''https://n8nautomation.site/webhook/9f329008-2786-495e-9efd-61975bb46186''"

text \<open>
  The default returned in three places; \<open>t1\<close> and \<open>t2\<close> are the two
  \<^verbatim>\<open>new Date().toISOString()\<close> of the object literal.
\<close>

definition default_setting :: "string \<Rightarrow> string \<Rightarrow> WebhookSetting" where
  "default_setting t1 t2 =
     \<lparr>ws_id = '''', setting_key = ''task_webhook_enabled'',
      setting_value = Some \<lparr>enabled = True, url = default_url\<rparr>,
      ws_description = ''Task webhook notifications'',
      ws_created_at = t1, ws_updated_at = t2\<rparr>"

text \<open>
  \<open>getWebhookSetting q t1 t2\<close>, where \<open>q\<close> is what awaiting the query gives. The
  declared result is \<^verbatim>\<open>WebhookSetting | null\<close>.
\<close>

definition getWebhookSetting ::
  "WebhookSetting maybe_single awaited \<Rightarrow> string \<Rightarrow> string \<Rightarrow> WebhookSetting option awaited" where
  "getWebhookSetting q t1 t2 =
     (case q of
        Rejected e \<Rightarrow> Resolved (Some (default_setting t1 t2))
      | Resolved res \<Rightarrow>
          if error res \<noteq> None then Resolved (Some (default_setting t1 t2))
          else if data res = None then Resolved (Some (default_setting t1 t2))
          else Resolved (data res))"

text \<open>
  A JavaScript value of the task data: a string or a number; an absent property is
  \<open>None\<close>. The task data and the payload are objects, that is, properties with values;
  the payload keeps the order in which its properties are set.
\<close>

datatype jsval = JString string | JNumber int

type_synonym TaskWebhookData = "string \<Rightarrow> jsval option"

type_synonym payload = "(string \<times> jsval option) list"

definition event_is :: "TaskWebhookData \<Rightarrow> string \<Rightarrow> bool" where
  "event_is d e = (d ''event_type'' = Some (JString e))"

definition webhookPayload :: "TaskWebhookData \<Rightarrow> string \<Rightarrow> payload" where
  "webhookPayload d timestamp =
     [(''task_id'', d ''id''),
      (''task_name'', d ''task_name''),
      (''description'', d ''description''),
      (''status'', d ''status''),
      (''priority'', d ''priority''),
      (''assigned_to_name'', d ''user_name''),
      (''assigned_to_email'', d ''user_email''),
      (''project_name'', d ''project_name''),
      (''due_date'', d ''due_date''),
      (''task_date'', d ''task_date''),
      (''progress'', d ''progress''),
      (''event_type'', d ''event_type''),
      (''created_at'', d ''created_at''),
      (''updated_at'', d ''updated_at''),
      (''timestamp'', Some (JString timestamp)),
      (''source'', Some (JString ''team_management_system''))] @
     (if event_is d ''task_created'' \<or> event_is d ''daily_task_created''
      then [(''created_by'', d ''created_by_name''),
            (''created_by_email'', d ''created_by_email'')]
      else if event_is d ''task_updated'' \<or> event_is d ''daily_task_updated''
      then [(''old_status'', d ''old_status''),
            (''new_status'', d ''status''),
            (''updated_by'', d ''updated_by_name''),
            (''updated_by_email'', d ''updated_by_email'')]
      else if event_is d ''task_deleted'' \<or> event_is d ''daily_task_deleted''
      then [(''deleted_by'', d ''deleted_by_name''),
            (''deleted_by_email'', d ''deleted_by_email'')]
      else [])"

text \<open>
  \<^verbatim>\<open>fetch(url, { method: 'POST', ... })\<close> either throws or gives a response with its
  \<^verbatim>\<open>ok\<close> flag and status.
\<close>

datatype fetch_outcome = FetchError string | Response bool int

record webhook_env =
  settings_query :: "WebhookSetting maybe_single awaited"
  clock1 :: string
  clock2 :: string
  timestamp_now :: string
  fetch :: "string \<Rightarrow> payload \<Rightarrow> fetch_outcome"

text \<open>
  The result of a call and the POST requests it made. \<open>sendTaskWebhook_try\<close> is the body
  of the \<^verbatim>\<open>try\<close>, \<open>sendTaskWebhook\<close> adds the \<^verbatim>\<open>catch\<close>, which returns false.
\<close>

type_synonym 'a outcome = "'a awaited \<times> (string \<times> payload) list"

definition sendTaskWebhook_try :: "webhook_env \<Rightarrow> TaskWebhookData \<Rightarrow> bool outcome" where
  "sendTaskWebhook_try env d =
     (case getWebhookSetting (settings_query env) (clock1 env) (clock2 env) of
        Rejected e \<Rightarrow> (Rejected e, [])
      | Resolved None \<Rightarrow> (Resolved False, [])
      | Resolved (Some webhookSetting) \<Rightarrow>
          (case setting_value webhookSetting of
             None \<Rightarrow> (Resolved False, [])
           | Some v \<Rightarrow>
               if \<not> enabled v then (Resolved False, [])
               else (let webhookUrl = url v
                     in if webhookUrl = '''' then (Resolved False, [])
                        else (let body = webhookPayload d (timestamp_now env)
                              in case fetch env webhookUrl body of
                                   FetchError e \<Rightarrow> (Rejected e, [(webhookUrl, body)])
                                 | Response ok st \<Rightarrow>
                                     (if ok then (Resolved True, [(webhookUrl, body)])
                                      else (Resolved False, [(webhookUrl, body)]))))))"

definition sendTaskWebhook :: "webhook_env \<Rightarrow> TaskWebhookData \<Rightarrow> bool outcome" where
  "sendTaskWebhook env d =
     (case sendTaskWebhook_try env d of
        (Rejected e, posts) \<Rightarrow> (Resolved False, posts)
      | (Resolved b, posts) \<Rightarrow> (Resolved b, posts))"

text \<open>
  The setting a call works with, and the cases of the claims: webhooks are disabled, no
  URL is configured, the POST to the configured URL throws, it is answered with a
  response that is not ok, or with one that is.
\<close>

definition current_setting :: "webhook_env \<Rightarrow> WebhookSetting option awaited" where
  "current_setting env = getWebhookSetting (settings_query env) (clock1 env) (clock2 env)"

definition current_value :: "webhook_env \<Rightarrow> setting_value option" where
  "current_value env =
     (case current_setting env of
        Resolved (Some s) \<Rightarrow> setting_value s
      | Resolved None \<Rightarrow> None
      | Rejected e \<Rightarrow> None)"

definition webhooks_disabled :: "webhook_env \<Rightarrow> bool" where
  "webhooks_disabled env = (case current_value env of None \<Rightarrow> True | Some v \<Rightarrow> \<not> enabled v)"

definition no_url :: "webhook_env \<Rightarrow> bool" where
  "no_url env = (case current_value env of None \<Rightarrow> True | Some v \<Rightarrow> url v = '''')"

definition post_outcome :: "webhook_env \<Rightarrow> TaskWebhookData \<Rightarrow> fetch_outcome option" where
  "post_outcome env d =
     (case current_value env of
        None \<Rightarrow> None
      | Some v \<Rightarrow> Some (fetch env (url v) (webhookPayload d (timestamp_now env))))"

definition post_ok :: "webhook_env \<Rightarrow> TaskWebhookData \<Rightarrow> bool" where
  "post_ok env d =
     (case post_outcome env d of Some (Response ok st) \<Rightarrow> ok | Some (FetchError e) \<Rightarrow> False | None \<Rightarrow> False)"

text \<open>The settings cannot be read: the query throws, returns an error, or finds no row.\<close>

definition unreadable :: "WebhookSetting maybe_single awaited \<Rightarrow> bool" where
  "unreadable q =
     (case q of Rejected e \<Rightarrow> True | Resolved res \<Rightarrow> error res \<noteq> None \<or> data res = None)"

text \<open>Two environments: one whose settings query fails, one with a stored setting.\<close>

definition example_data :: TaskWebhookData where
  "example_data =
     (\<lambda>k. if k = ''event_type'' then Some (JString ''task_created'')
          else if k = ''task_name'' then Some (JString ''Write report'')
          else None)"

definition failing_env :: webhook_env where
  "failing_env =
     \<lparr>settings_query = Resolved \<lparr>data = None, error = Some ''permission denied''\<rparr>,
      clock1 = ''2025-01-18T20:00:00.000Z'', clock2 = ''2025-01-18T20:00:00.001Z'',
      timestamp_now = ''2025-01-18T20:00:00.002Z'',
      fetch = (\<lambda>u b. if u = default_url then Response True 200 else FetchError ''unreachable'')\<rparr>"

definition stored_setting :: WebhookSetting where
  "stored_setting =
     \<lparr>ws_id = ''1'', setting_key = ''task_webhook_enabled'',
      setting_value = Some \<lparr>enabled = True, url = ''https://hooks.example.org/t''\<rparr>,
      ws_description = ''Task webhook notifications'',
      ws_created_at = ''2025-01-01T00:00:00.000Z'', ws_updated_at = ''2025-01-01T00:00:00.000Z''\<rparr>"

definition working_env :: webhook_env where
  "working_env =
     \<lparr>settings_query = Resolved \<lparr>data = Some stored_setting, error = None\<rparr>,
      clock1 = ''2025-01-18T20:00:00.000Z'', clock2 = ''2025-01-18T20:00:00.001Z'',
      timestamp_now = ''2025-01-18T20:00:00.002Z'',
      fetch = (\<lambda>u b. if u = ''https://hooks.example.org/t'' then Response False 500
                      else FetchError ''unreachable'')\<rparr>"

section \<open>The scheduled database function (send_daily_performance_report)\<close>

text \<open>
  The session: its time zone offset, and the texts of \<^verbatim>\<open>CURRENT_DATE\<close> and of \<^verbatim>\<open>now()\<close>
  at a given instant. \<open>date_trunc_day tz t\<close> is \<^verbatim>\<open>date_trunc('day', now())\<close>.
\<close>

record pg_session =
  time_zone :: int
  current_date :: "instant \<Rightarrow> string"
  now_text :: "instant \<Rightarrow> string"

definition date_trunc_day :: "int \<Rightarrow> instant \<Rightarrow> instant" where
  "date_trunc_day tz t = t - (t + tz) mod ms_per_day"

record sql_counts =
  total_tasks_count :: nat
  completed_count :: nat
  pending_count :: nat
  blocked_count :: nat
  deleted_count :: nat

text \<open>
  The five \<^verbatim>\<open>SELECT COUNT(*)\<close>. \<^verbatim>\<open>today_end\<close> is
  \<^verbatim>\<open>today_start + interval '1 day' - interval '1 second'\<close>; a row whose \<^verbatim>\<open>due_date\<close> is
  null does not satisfy \<^verbatim>\<open>due_date < now()\<close>.
\<close>

definition daily_counts :: "pg_session \<Rightarrow> backend \<Rightarrow> instant \<Rightarrow> sql_counts" where
  "daily_counts sess be now =
     (let today_start = date_trunc_day (time_zone sess) now;
          today_end = today_start + ms_per_day - 1000;
          today = (\<lambda>t. today_start \<le> t \<and> t \<le> today_end)
      in \<lparr>total_tasks_count = length (filter (\<lambda>t. today (updated_at t)) (tasks_tbl be)),
          completed_count =
            length (filter (\<lambda>t. today (updated_at t) \<and> status t = ''completed'') (tasks_tbl be)),
          pending_count =
            length (filter (\<lambda>t. today (updated_at t) \<and> status t \<noteq> ''completed'') (tasks_tbl be)),
          blocked_count =
            length (filter (\<lambda>t. today (updated_at t) \<and> status t \<noteq> ''completed'' \<and>
                                 (case due_date t of None \<Rightarrow> False | Some d \<Rightarrow> d < now))
                      (tasks_tbl be)),
          deleted_count =
            length (filter (\<lambda>d. today (deleted_at d) \<and> task_type d = ''regular'')
                      (deleted_tasks_tbl be))\<rparr>)"

text \<open>The \<^verbatim>\<open>format(...)\<close> of the message.\<close>

definition report_message :: "string \<Rightarrow> sql_counts \<Rightarrow> string" where
  "report_message report_date c =
     calendar @ '' Date: '' @ report_date @ [CHR 0x0A, CHR 0x0A] @
     chart @ '' Overall Performance:'' @ [CHR 0x0A] @
     bullet @ '' Total Tasks Updated: '' @ to_string (total_tasks_count c) @ [CHR 0x0A] @
     bullet @ '' '' @ check_mark @ '' Completed: '' @ to_string (completed_count c) @ [CHR 0x0A] @
     bullet @ '' '' @ hourglass @ '' Pending: '' @ to_string (pending_count c) @ [CHR 0x0A] @
     bullet @ '' '' @ no_entry @ '' Blocked: '' @ to_string (blocked_count c) @ [CHR 0x0A] @
     bullet @ '' '' @ wastebasket @ '' Deleted: '' @ to_string (deleted_count c) @ [CHR 0x0A, CHR 0x0A] @
     ''Check the dashboard for detailed breakdown by team member.''"

text \<open>
  The row \<^verbatim>\<open>SELECT url, is_enabled FROM webhook_settings WHERE id = 1\<close> finds, if any;
  both columns may be null.
\<close>

record webhook_settings_row =
  ws_url :: "string option"
  is_enabled :: "bool option"

record report_payload =
  p_event_type :: string
  p_report_date :: string
  p_metrics :: sql_counts
  p_message :: string
  p_timestamp :: string
  p_source :: string

text \<open>The \<^verbatim>\<open>http(...)\<close> call raises or returns a response with a status.\<close>

datatype http_outcome = HttpRaises string | HttpStatus nat

text \<open>
  The state: the \<^verbatim>\<open>notifications\<close> table, the HTTP requests made and the notices
  raised. An exception carries its message and the HTTP requests made before it, which
  no rollback undoes.
\<close>

record sql_state =
  notifications :: "notification list"
  http_requests :: "(string \<times> report_payload) list"
  notices :: "string list"

type_synonym sql_exception = "string \<times> (string \<times> report_payload) list"

definition default_report_url :: string where
  "default_report_url = ''https://n8nautomation.site/webhook/024b9c20-7772-46f1-89cf-00ed7bf00c43''"

text \<open>One \<^verbatim>\<open>INSERT INTO notifications ... SELECT ... FROM table WHERE is_active = true\<close>.\<close>

definition insert_report_notifications ::
  "backend \<Rightarrow> user_table \<Rightarrow> string \<Rightarrow> string \<Rightarrow> string \<Rightarrow> sql_state \<Rightarrow> sql_state" where
  "insert_report_notifications be tb report_date msg created s =
     s\<lparr>notifications := notifications s @
         map (\<lambda>u. \<lparr>n_user_id = row_id u,
                    title = bar_chart @ '' Daily Performance Report - '' @ report_date,
                    message = msg,
                    n_type = ''report'',
                    is_read = False,
                    created_at = created\<rparr>)
           (filter is_active (users_tbl be tb))\<rparr>"

text \<open>The statements between the inner \<^verbatim>\<open>BEGIN\<close> and \<^verbatim>\<open>EXCEPTION\<close>.\<close>

definition webhook_block ::
  "(string \<Rightarrow> report_payload \<Rightarrow> http_outcome) \<Rightarrow> string \<Rightarrow> report_payload \<Rightarrow> sql_state \<Rightarrow>
   sql_exception + sql_state" where
  "webhook_block http webhook_url webhook_payload s =
     (let s1 = s\<lparr>http_requests := http_requests s @ [(webhook_url, webhook_payload)]\<rparr>
      in case http webhook_url webhook_payload of
           HttpRaises e \<Rightarrow> Inl (e, http_requests s1)
         | HttpStatus st \<Rightarrow>
             Inr (s1\<lparr>notices := notices s1 @
                    [''Webhook sent successfully to '' @ webhook_url @ '' with status '' @ to_string st]\<rparr>))"

text \<open>
  \<^verbatim>\<open>BEGIN body EXCEPTION WHEN OTHERS THEN RAISE NOTICE ... END\<close>: the changes of the body
  are rolled back to the state at \<^verbatim>\<open>BEGIN\<close>, the notice is raised, and execution goes on.
\<close>

definition when_others ::
  "(sql_state \<Rightarrow> sql_exception + sql_state) \<Rightarrow> sql_state \<Rightarrow> sql_exception + sql_state" where
  "when_others body s =
     (case body s of
        Inr s' \<Rightarrow> Inr s'
      | Inl (e, reqs) \<Rightarrow>
          Inr (s\<lparr>http_requests := reqs,
                 notices := notices s @ [''Failed to send webhook: '' @ e]\<rparr>))"

definition send_daily_performance_report ::
  "pg_session \<Rightarrow> backend \<Rightarrow> webhook_settings_row option \<Rightarrow>
   (string \<Rightarrow> report_payload \<Rightarrow> http_outcome) \<Rightarrow> instant \<Rightarrow> sql_state \<Rightarrow> sql_exception + sql_state" where
  "send_daily_performance_report sess be settings http now s =
     (let report_date = current_date sess now;
          c = daily_counts sess be now;
          msg = report_message report_date c;
          s1 = insert_report_notifications be Members report_date msg (now_text sess now) s;
          s2 = insert_report_notifications be ProjectManagers report_date msg (now_text sess now) s1;
          s3 = insert_report_notifications be Admins report_date msg (now_text sess now) s2;
          webhook_url = (case settings of None \<Rightarrow> None | Some r \<Rightarrow> ws_url r);
          webhook_enabled = (case settings of None \<Rightarrow> None | Some r \<Rightarrow> is_enabled r);
          unconfigured = (webhook_url = None \<or> webhook_url = Some '''');
          webhook_url' = (if unconfigured then Some default_report_url else webhook_url);
          webhook_enabled' = (if unconfigured then Some True else webhook_enabled)
      in case (if webhook_enabled' = Some True
               then when_others
                      (webhook_block http (the webhook_url')
                         \<lparr>p_event_type = ''daily_performance_report'',
                          p_report_date = report_date,
                          p_metrics = c,
                          p_message = msg,
                          p_timestamp = now_text sess now,
                          p_source = ''team_management_system''\<rparr>) s3
               else Inr s3) of
           Inl x \<Rightarrow> Inl x
         | Inr s4 \<Rightarrow>
             Inr (s4\<lparr>notices := notices s4 @
                    [''Daily performance report sent successfully for '' @ report_date]\<rparr>))"

text \<open>
  What the function is meant to do: the notification of a recipient, and the webhook as
  configured, where a missing or empty URL stands for the default URL, enabled.
\<close>

definition report_notification :: "pg_session \<Rightarrow> backend \<Rightarrow> instant \<Rightarrow> user_row \<Rightarrow> notification" where
  "report_notification sess be now u =
     \<lparr>n_user_id = row_id u,
      title = bar_chart @ '' Daily Performance Report - '' @ current_date sess now,
      message = report_message (current_date sess now) (daily_counts sess be now),
      n_type = ''report'',
      is_read = False,
      created_at = now_text sess now\<rparr>"

definition url_configured :: "webhook_settings_row option \<Rightarrow> bool" where
  "url_configured settings =
     (case settings of
        None \<Rightarrow> False
      | Some r \<Rightarrow> (case ws_url r of None \<Rightarrow> False | Some u \<Rightarrow> u \<noteq> ''''))"

definition webhook_on :: "webhook_settings_row option \<Rightarrow> bool" where
  "webhook_on settings =
     (if url_configured settings
      then (case settings of Some r \<Rightarrow> is_enabled r = Some True | None \<Rightarrow> False)
      else True)"

definition webhook_target :: "webhook_settings_row option \<Rightarrow> string" where
  "webhook_target settings =
     (if url_configured settings
      then (case settings of Some r \<Rightarrow> (case ws_url r of Some u \<Rightarrow> u | None \<Rightarrow> default_report_url)
                           | None \<Rightarrow> default_report_url)
      else default_report_url)"

text \<open>
  The instants of the day of \<open>now\<close> after 23:59:59.000, which the day window of the
  function leaves out.
\<close>

definition last_second :: "int \<Rightarrow> instant \<Rightarrow> instant \<Rightarrow> bool" where
  "last_second tz now x =
     (date_trunc_day tz now + ms_per_day - 1000 < x \<and> x < date_trunc_day tz now + ms_per_day)"

definition late_backend :: backend where
  "late_backend =
     \<lparr>tasks_tbl =
        [\<lparr>user_id = ''u1'', status = ''pending'', updated_at = 172799500, due_date = Some 200000000\<rparr>],
      deleted_tasks_tbl = [],
      users_tbl = example_users,
      query_error = (\<lambda>q. None)\<rparr>"

definition example_session :: pg_session where
  "example_session =
     \<lparr>time_zone = 0,
      current_date = (\<lambda>t. ''1970-01-02''),
      now_text = (\<lambda>t. ''1970-01-02 01:00:00.1+00'')\<rparr>"

definition failing_http :: "string \<Rightarrow> report_payload \<Rightarrow> http_outcome" where
  "failing_http u b = HttpRaises ''could not resolve host''"

definition empty_state :: sql_state where
  "empty_state = \<lparr>notifications = [], http_requests = [], notices = []\<rparr>"

section \<open>The live task list (useDailyTasks)\<close>

record daily_task =
  dt_id :: string
  dt_user_id :: string
  dt_status :: string
  task_date :: string
  priority :: string
  project_id :: "string option"
  task_name :: string
  description :: "string option"

text \<open>A filter is set when it is truthy: present and not the empty string.\<close>

record DailyTaskFilters =
  f_status :: "string option"
  f_member :: "string option"
  f_date :: "string option"
  f_priority :: "string option"
  f_project :: "string option"
  f_search :: "string option"

record auth_user =
  auth_id :: string
  role :: string

definition truthy :: "string option \<Rightarrow> bool" where
  "truthy v = (case v of None \<Rightarrow> False | Some s \<Rightarrow> s \<noteq> '''')"

text \<open>
  Text matching. The lowering of case is the platform's, and a parameter here:
  \<open>toLowerCase\<close> stands for \<^verbatim>\<open>String.prototype.toLowerCase\<close> of the runtime, \<open>casefold\<close>
  for the case folding the database applies in \<^verbatim>\<open>ILIKE\<close>. \<open>str_includes s sub\<close> is
  \<^verbatim>\<open>s.includes(sub)\<close>. \<open>like s p\<close> is the database's \<^verbatim>\<open>s LIKE p\<close>: \<^verbatim>\<open>%\<close> matches any
  run of characters, \<^verbatim>\<open>_\<close> any one character, a backslash takes the next character
  literally; \<open>ilike\<close> is \<open>like\<close> on the folded strings.
\<close>

fun str_includes :: "string \<Rightarrow> string \<Rightarrow> bool" where
  "str_includes [] sub = (sub = [])"
| "str_includes (c # cs) sub = (prefix sub (c # cs) \<or> str_includes cs sub)"

fun like :: "string \<Rightarrow> string \<Rightarrow> bool" where
  "like s [] = (s = [])"
| "like s (p # ps) =
     (if p = CHR ''%'' then (like s ps \<or> (case s of [] \<Rightarrow> False | c # cs \<Rightarrow> like cs (p # ps)))
      else if p = CHR ''_'' then (case s of [] \<Rightarrow> False | c # cs \<Rightarrow> like cs ps)
      else if p = CHR 0x5C
      then (case ps of
              [] \<Rightarrow> False
            | q # qs \<Rightarrow> (case s of [] \<Rightarrow> False | c # cs \<Rightarrow> c = q \<and> like cs qs))
      else (case s of [] \<Rightarrow> False | c # cs \<Rightarrow> c = p \<and> like cs ps))"

definition ilike :: "(string \<Rightarrow> string) \<Rightarrow> string \<Rightarrow> string \<Rightarrow> bool" where
  "ilike casefold s p = like (casefold s) (casefold p)"

text \<open>
  The conditions \<open>fetchTasks\<close> adds to its query, one for each filter that is set and
  one for a user who is neither admin nor project manager; a row is fetched when it
  satisfies them all. A null column satisfies no \<^verbatim>\<open>eq\<close> and no \<^verbatim>\<open>ilike\<close>.
\<close>

definition fetch_conditions ::
  "(string \<Rightarrow> string) \<Rightarrow> DailyTaskFilters \<Rightarrow> auth_user \<Rightarrow> (daily_task \<Rightarrow> bool) list" where
  "fetch_conditions casefold filters user =
     (if truthy (f_status filters) then [\<lambda>t. Some (dt_status t) = f_status filters] else []) @
     (if truthy (f_member filters) then [\<lambda>t. Some (dt_user_id t) = f_member filters] else []) @
     (if truthy (f_date filters) then [\<lambda>t. Some (task_date t) = f_date filters] else []) @
     (if truthy (f_priority filters) then [\<lambda>t. Some (priority t) = f_priority filters] else []) @
     (if truthy (f_project filters) then [\<lambda>t. project_id t = f_project filters] else []) @
     (if truthy (f_search filters)
      then [\<lambda>t. ilike casefold (task_name t) (''%'' @ the (f_search filters) @ ''%'') \<or>
                 (case description t of
                    None \<Rightarrow> False
                  | Some d \<Rightarrow> ilike casefold d (''%'' @ the (f_search filters) @ ''%''))]
      else []) @
     (if role user \<noteq> ''admin'' \<and> role user \<noteq> ''project_manager''
      then [\<lambda>t. dt_user_id t = auth_id user] else [])"

definition fetched ::
  "(string \<Rightarrow> string) \<Rightarrow> DailyTaskFilters \<Rightarrow> auth_user \<Rightarrow> daily_task \<Rightarrow> bool" where
  "fetched casefold filters user t = list_all (\<lambda>c. c t) (fetch_conditions casefold filters user)"

text \<open>
  The check both realtime handlers make on the task they have re-read (the same
  statements in the INSERT and in the UPDATE handler).
\<close>

definition shouldInclude ::
  "(string \<Rightarrow> string) \<Rightarrow> DailyTaskFilters \<Rightarrow> auth_user \<Rightarrow> daily_task \<Rightarrow> bool" where
  "shouldInclude toLowerCase filters user newTask =
     (let inc = True;
          inc = (if truthy (f_status filters) \<and> Some (dt_status newTask) \<noteq> f_status filters
                 then False else inc);
          inc = (if truthy (f_member filters) \<and> Some (dt_user_id newTask) \<noteq> f_member filters
                 then False else inc);
          inc = (if truthy (f_date filters) \<and> Some (task_date newTask) \<noteq> f_date filters
                 then False else inc);
          inc = (if truthy (f_priority filters) \<and> Some (priority newTask) \<noteq> f_priority filters
                 then False else inc);
          inc = (if truthy (f_search filters)
                 then (let searchLower = toLowerCase (the (f_search filters));
                           matchesSearch =
                             (str_includes (toLowerCase (task_name newTask)) searchLower \<or>
                              (case description newTask of
                                 None \<Rightarrow> False
                               | Some d \<Rightarrow> d \<noteq> '''' \<and> str_includes (toLowerCase d) searchLower))
                       in if \<not> matchesSearch then False else inc)
                 else inc);
          inc = (if role user \<noteq> ''admin'' \<and> dt_user_id newTask \<noteq> auth_id user then False else inc)
      in inc)"

text \<open>\<^verbatim>\<open>xs.findIndex(p)\<close>, with \<open>None\<close> for -1.\<close>

fun findIndex :: "('a \<Rightarrow> bool) \<Rightarrow> 'a list \<Rightarrow> nat option" where
  "findIndex p [] = None"
| "findIndex p (x # xs) = (if p x then Some 0 else map_option Suc (findIndex p xs))"

text \<open>The three state updates passed to \<^verbatim>\<open>setTasks\<close>.\<close>

definition on_insert ::
  "(string \<Rightarrow> string) \<Rightarrow> DailyTaskFilters \<Rightarrow> auth_user \<Rightarrow> daily_task \<Rightarrow> daily_task list \<Rightarrow>
   daily_task list" where
  "on_insert toLowerCase filters user newTask prevTasks =
     (if find (\<lambda>task. dt_id task = dt_id newTask) prevTasks \<noteq> None then prevTasks
      else if shouldInclude toLowerCase filters user newTask then newTask # prevTasks
      else prevTasks)"

definition on_update ::
  "(string \<Rightarrow> string) \<Rightarrow> DailyTaskFilters \<Rightarrow> auth_user \<Rightarrow> daily_task \<Rightarrow> daily_task list \<Rightarrow>
   daily_task list" where
  "on_update toLowerCase filters user updatedTask prevTasks =
     (case findIndex (\<lambda>task. dt_id task = dt_id updatedTask) prevTasks of
        None \<Rightarrow> prevTasks
      | Some taskIndex \<Rightarrow>
          if shouldInclude toLowerCase filters user updatedTask
          then prevTasks[taskIndex := updatedTask]
          else filter (\<lambda>task. dt_id task \<noteq> dt_id updatedTask) prevTasks)"

definition on_delete :: "string \<Rightarrow> daily_task list \<Rightarrow> daily_task list" where
  "on_delete deletedTaskId prevTasks = filter (\<lambda>task. dt_id task \<noteq> deletedTaskId) prevTasks"

text \<open>
  A change event carries the id of the row. For INSERT and UPDATE the handler re-reads
  the row by id (\<open>lookup\<close>; nothing happens when that fails) before it updates the state.
\<close>

datatype change = INSERT string | UPDATE string | DELETE string

definition handle_change ::
  "(string \<Rightarrow> string) \<Rightarrow> DailyTaskFilters \<Rightarrow> auth_user \<Rightarrow> (string \<Rightarrow> daily_task option) \<Rightarrow>
   change \<Rightarrow> daily_task list \<Rightarrow> daily_task list" where
  "handle_change toLowerCase filters user lookup ev tasks =
     (case ev of
        INSERT i \<Rightarrow>
          (case lookup i of None \<Rightarrow> tasks | Some t \<Rightarrow> on_insert toLowerCase filters user t tasks)
      | UPDATE i \<Rightarrow>
          (case lookup i of None \<Rightarrow> tasks | Some t \<Rightarrow> on_update toLowerCase filters user t tasks)
      | DELETE i \<Rightarrow> on_delete i tasks)"

text \<open>
  An admin looks at the tasks of project \<open>p1\<close>; a task of project \<open>p2\<close> is created.
\<close>

definition project_filter :: DailyTaskFilters where
  "project_filter =
     \<lparr>f_status = None, f_member = None, f_date = None, f_priority = None,
      f_project = Some ''p1'', f_search = None\<rparr>"

definition admin_user :: auth_user where
  "admin_user = \<lparr>auth_id = ''a1'', role = ''admin''\<rparr>"

definition other_project_task :: daily_task where
  "other_project_task =
     \<lparr>dt_id = ''t9'', dt_user_id = ''u1'', dt_status = ''pending'', task_date = ''2025-01-18'',
      priority = ''medium'', project_id = Some ''p2'', task_name = ''Write report'',
      description = None\<rparr>"

definition example_lookup :: "string \<Rightarrow> daily_task option" where
  "example_lookup i = (if i = ''t9'' then Some other_project_task else None)"

section \<open>Properties of the report\<close>

subsection \<open>The breakdown fold\<close>

lemma userId_count_task: "userId (count_task now t s) = userId s"
  by (simp add: count_task_def Let_def)

lemma userId_new_stats: "userId (new_stats um k) = k"
  by (simp add: new_stats_def Let_def)

lemma keys_modify_user:
  "(\<And>s. userId (f s) = userId s) \<Longrightarrow> map userId (modify_user k f m) = map userId m"
  by (induction m) auto

lemma keys_tally:
  "map userId (tally um now m t) =
     (if user_id t \<in> set (map userId m) then map userId m else map userId m @ [user_id t])"
  by (simp add: tally_def Let_def keys_modify_user userId_count_task userId_new_stats has_user_def)

lemma keys_foldl_tally:
  "distinct (map userId m) \<Longrightarrow>
     distinct (map userId (foldl (tally um now) m ts)) \<and>
     set (map userId (foldl (tally um now) m ts)) = set (map userId m) \<union> user_id ` set ts"
proof (induction ts arbitrary: m)
  case Nil
  then show ?case by simp
next
  case (Cons t ts)
  have d: "distinct (map userId (tally um now m t))"
    using Cons.prems by (simp add: keys_tally)
  have s: "set (map userId (tally um now m t)) = insert (user_id t) (set (map userId m))"
    by (auto simp: keys_tally)
  show ?case
    using Cons.IH [OF d] s by auto
qed

lemma stats_of_modify:
  "(\<And>s. userId (f s) = userId s) \<Longrightarrow>
   stats_of (modify_user k f m) k' = (if k' = k then map_option f (stats_of m k) else stats_of m k')"
  by (induction m) (auto simp: stats_of_def)

lemma stats_of_append:
  "stats_of (m @ [e]) k =
     (case stats_of m k of Some s \<Rightarrow> Some s | None \<Rightarrow> if userId e = k then Some e else None)"
  by (induction m) (auto simp: stats_of_def)

lemma stats_of_None: "stats_of m k = None \<longleftrightarrow> \<not> has_user m k"
  by (auto simp: stats_of_def has_user_def find_None_iff)

lemma stats_of_tally:
  "stats_of (tally um now m t) k =
     (if k = user_id t
      then Some (count_task now t (case stats_of m k of Some s \<Rightarrow> s | None \<Rightarrow> new_stats um k))
      else stats_of m k)"
proof (cases "has_user m (user_id t)")
  case True
  then obtain s where "stats_of m (user_id t) = Some s"
    using stats_of_None [of m "user_id t"] by (cases "stats_of m (user_id t)") auto
  with True show ?thesis
    by (simp add: tally_def Let_def stats_of_modify userId_count_task)
next
  case False
  then have "stats_of m (user_id t) = None" by (simp add: stats_of_None)
  with False show ?thesis
    by (auto simp add: tally_def Let_def stats_of_modify userId_count_task stats_of_append
          userId_new_stats split: option.splits)
qed

lemma tally_of_foldl:
  assumes step: "\<And>t s. fld (count_task now t s) = fld s + (if P t then 1 else 0)"
      and init: "\<And>k. fld (new_stats um k) = 0"
  shows "tally_of fld (foldl (tally um now) m ts) k =
           tally_of fld m k + length (filter (\<lambda>t. user_id t = k \<and> P t) ts)"
proof (induction ts arbitrary: m)
  case Nil
  then show ?case by simp
next
  case (Cons t ts)
  have "tally_of fld (tally um now m t) k =
          tally_of fld m k + (if user_id t = k \<and> P t then 1 else 0)"
    by (simp add: tally_of_def stats_of_tally step init split: option.splits)
  then show ?case
    using Cons.IH [of "tally um now m t"] by simp
qed

lemma stats_of_member:
  "distinct (map userId m) \<Longrightarrow> e \<in> set m \<Longrightarrow> stats_of m (userId e) = Some e"
  by (induction m) (auto simp: stats_of_def)

lemma entry_count:
  assumes step: "\<And>t s. fld (count_task now t s) = fld s + (if P t then 1 else 0)"
      and init: "\<And>k. fld (new_stats um k) = 0"
      and e: "e \<in> set (foldl (tally um now) [] ts)"
  shows "fld e = length (filter (\<lambda>t. user_id t = userId e \<and> P t) ts)"
proof -
  have "distinct (map userId (foldl (tally um now) [] ts))"
    using keys_foldl_tally [of "[]" um now ts] by simp
  then have "stats_of (foldl (tally um now) [] ts) (userId e) = Some e"
    using e by (rule stats_of_member)
  then have "fld e = tally_of fld (foldl (tally um now) [] ts) (userId e)"
    by (simp add: tally_of_def)
  also have "\<dots> = length (filter (\<lambda>t. user_id t = userId e \<and> P t) ts)"
    using tally_of_foldl [of fld now P um "[]" ts "userId e", OF step init]
    by (simp add: tally_of_def stats_of_def)
  finally show ?thesis .
qed

lemma step_userTasks: "userTasks (count_task now t s) = userTasks s + (if True then 1 else 0)"
  by (simp add: count_task_def Let_def)

lemma step_completed:
  "completed (count_task now t s) = completed s + (if status t = ''completed'' then 1 else 0)"
  by (simp add: count_task_def Let_def)

lemma step_pending:
  "pending (count_task now t s) = pending s + (if status t \<noteq> ''completed'' then 1 else 0)"
  by (simp add: count_task_def Let_def)

lemma step_blocked:
  "blocked (count_task now t s) = blocked s + (if is_blocked now t then 1 else 0)"
  by (simp add: count_task_def Let_def is_blocked_def)

lemma init_fields:
  "userTasks (new_stats um k) = 0" "completed (new_stats um k) = 0"
  "pending (new_stats um k) = 0" "blocked (new_stats um k) = 0"
  by (simp_all add: new_stats_def Let_def)

subsection \<open>Column sums\<close>

lemma sum_modify_user:
  "has_user m k \<Longrightarrow> (\<And>s. fld (f s) = fld s + c) \<Longrightarrow>
   sum_list (map fld (modify_user k f m)) = sum_list (map fld m) + (c::nat)"
  by (induction m) (auto simp: has_user_def)

lemma sum_tally:
  assumes step: "\<And>t s. fld (count_task now t s) = fld s + (if P t then 1 else 0)"
      and init: "\<And>k. fld (new_stats um k) = 0"
  shows "sum_list (map fld (tally um now m t)) = sum_list (map fld m) + (if P t then 1 else (0::nat))"
proof (cases "has_user m (user_id t)")
  case True
  then show ?thesis
    using sum_modify_user [of m "user_id t" fld "count_task now t" "if P t then 1 else 0"] step
    by (simp add: tally_def)
next
  case False
  have h: "has_user (m @ [new_stats um (user_id t)]) (user_id t)"
    by (simp add: has_user_def userId_new_stats)
  show ?thesis
    using False sum_modify_user [OF h, of fld "count_task now t" "if P t then 1 else 0"] step init
    by (simp add: tally_def Let_def)
qed

lemma sum_foldl_tally:
  assumes step: "\<And>t s. fld (count_task now t s) = fld s + (if P t then 1 else 0)"
      and init: "\<And>k. fld (new_stats um k) = 0"
  shows "sum_list (map fld (foldl (tally um now) m ts)) = sum_list (map fld m) + length (filter P ts)"
proof (induction ts arbitrary: m)
  case Nil
  then show ?case by simp
next
  case (Cons t ts)
  show ?case
    using Cons.IH [of "tally um now m t"] sum_tally [of fld now P um m t, OF step init]
    by simp
qed

subsection \<open>The day window\<close>

lemma setHours0_idem: "setHours0 tz (setHours0 tz d) = setHours0 tz d"
proof -
  have "(d - (d + tz) mod ms_per_day + tz) mod ms_per_day = 0"
    by (metis add.commute add_diff_eq minus_mod_eq_mult_div mod_mult_self1_is_0)
  then show ?thesis by (simp add: setHours0_def)
qed

lemma div_eq_iff_window:
  fixes y D q :: int
  assumes D: "0 < D"
  shows "(y div D = q) \<longleftrightarrow> (D * q \<le> y \<and> y < D * q + D)"
proof
  assume "y div D = q"
  then have "y = D * q + y mod D" by (metis mult_div_mod_eq)
  moreover have "0 \<le> y mod D" "y mod D < D" using D by simp_all
  ultimately show "D * q \<le> y \<and> y < D * q + D" by linarith
next
  assume h: "D * q \<le> y \<and> y < D * q + D"
  have "y = D * q + (y - D * q)" by simp
  then show "y div D = q"
    using int_div_pos_eq [of y D q "y - D * q"] h by simp
qed

lemma setHours0_plus_tz: "setHours0 tz t0 + tz = ms_per_day * ((t0 + tz) div ms_per_day)"
  by (simp add: setHours0_def minus_mod_eq_mult_div algebra_simps)

lemma window_same_day:
  "(setHours0 tz t0 \<le> x \<and> x \<le> setHours235959999 tz (setHours0 tz t0)) \<longleftrightarrow> same_day tz x t0"
proof -
  have D: "0 < ms_per_day" by (simp add: ms_per_day_def)
  have "same_day tz x t0 \<longleftrightarrow>
          (setHours0 tz t0 + tz \<le> x + tz \<and> x + tz < setHours0 tz t0 + tz + ms_per_day)"
    unfolding same_day_def setHours0_plus_tz using div_eq_iff_window [OF D] by blast
  then show ?thesis
    by (auto simp: setHours235959999_def setHours0_idem)
qed

lemma select_tasks_today:
  "select_tasks be (setHours0 (tz_offset rt) t0) (setHours235959999 (tz_offset rt) (setHours0 (tz_offset rt) t0)) =
     run_query be TasksUpdated (tasks_today rt be t0)"
  by (simp add: select_tasks_def tasks_today_def window_same_day)

lemma select_deleted_today:
  "select_deleted be (setHours0 (tz_offset rt) t0) (setHours235959999 (tz_offset rt) (setHours0 (tz_offset rt) t0)) =
     run_query be DeletedTasks (deleted_today rt be t0)"
  by (simp add: select_deleted_def deleted_today_def window_same_day conj_assoc)

lemma is_blocked_iff:
  "is_blocked now t \<longleftrightarrow> status t \<noteq> ''completed'' \<and> new_Date (due_date t) < now"
  by (simp add: is_blocked_def)

lemma is_blocked_overdue:
  "due_date t \<noteq> None \<Longrightarrow> is_blocked now t = overdue now t"
  by (auto simp: is_blocked_def overdue_def new_Date_def)

lemma filter_is_blocked_overdue:
  assumes "\<forall>t \<in> set ts. due_date t \<noteq> None"
  shows "filter (\<lambda>t. P t \<and> is_blocked now t) ts = filter (\<lambda>t. P t \<and> overdue now t) ts"
  using assms by (intro filter_cong) (auto simp: is_blocked_overdue)

subsection \<open>The cases of generateDailyReport\<close>

lemma generateDailyReport_Inr:
  assumes "generateDailyReport rt be t0 now = Inr r"
  shows "query_error be TasksUpdated = None \<and>
         (\<exists>um. r = \<lparr>date = iso_date rt (setHours0 (tz_offset rt) t0),
                  totalTasks = length (tasks_today rt be t0),
                  pendingTasks = length (filter (\<lambda>t. status t \<noteq> ''completed'') (tasks_today rt be t0)),
                  completedTasks = length (filter (\<lambda>t. status t = ''completed'') (tasks_today rt be t0)),
                  blockedTasks = length (filter (is_blocked now) (tasks_today rt be t0)),
                  deletedTasks = length (data_or_empty (run_query be DeletedTasks (deleted_today rt be t0))),
                  byUser = foldl (tally um now) [] (tasks_today rt be t0)\<rparr>)"
  using assms
  unfolding generateDailyReport_def Let_def select_tasks_today select_deleted_today
  by (auto simp: run_query_def split: option.splits)

lemma generateDailyReport_returns:
  assumes "query_error be TasksUpdated = None"
  shows "\<exists>r. generateDailyReport rt be t0 now = Inr r"
  using assms
  unfolding generateDailyReport_def Let_def select_tasks_today
  by (simp add: run_query_def)

lemmas report_defs =
  generateDailyReport_def select_tasks_def select_deleted_def select_users_in_def run_query_def
  data_or_empty_def setHours0_def setHours235959999_def ms_per_day_def unique_def
  build_userMap_def userMap_set_def tally_def has_user_def new_stats_def count_task_def
  is_blocked_def new_Date_def

lemma example_report_eval:
  "generateDailyReport example_runtime example_backend 90000000 90000100 = Inr example_report"
  by (simp add: report_defs example_runtime_def example_backend_def example_users_def
        example_report_def Let_def)

lemma example_tasks_today:
  "tasks_today example_runtime example_backend 90000000 =
     [\<lparr>user_id = ''u1'', status = ''completed'', updated_at = 86400005, due_date = Some 100\<rparr>,
      \<lparr>user_id = ''u2'', status = ''in_progress'', updated_at = 86400010, due_date = Some 100\<rparr>,
      \<lparr>user_id = ''u1'', status = ''pending'', updated_at = 86400020, due_date = Some 99000000\<rparr>]"
  by (simp add: tasks_today_def same_day_def ms_per_day_def example_runtime_def example_backend_def)

lemma deleted_unreadable_eval:
  "generateDailyReport example_runtime deleted_unreadable 90000000 90000100 =
     Inr (example_report\<lparr>deletedTasks := 0\<rparr>)"
  by (simp add: report_defs example_runtime_def example_backend_def example_users_def
        example_report_def deleted_unreadable_def Let_def)

lemma deleted_today_example:
  "deleted_today example_runtime deleted_unreadable 90000000 = [\<lparr>task_type = ''regular'', deleted_at = 86400030\<rparr>]"
  by (simp add: deleted_today_def same_day_def ms_per_day_def example_runtime_def
        deleted_unreadable_def example_backend_def)

lemma byUser_entry:
  assumes e: "e \<in> set (foldl (tally um now) [] ts)"
  shows "userTasks e = length (filter (\<lambda>t. user_id t = userId e) ts)"
    and "completed e = length (filter (\<lambda>t. user_id t = userId e \<and> status t = ''completed'') ts)"
    and "pending e = length (filter (\<lambda>t. user_id t = userId e \<and> status t \<noteq> ''completed'') ts)"
    and "blocked e = length (filter (\<lambda>t. user_id t = userId e \<and> is_blocked now t) ts)"
  using entry_count [OF step_userTasks init_fields(1) e]
    entry_count [OF step_completed init_fields(2) e]
    entry_count [OF step_pending init_fields(3) e]
    entry_count [OF step_blocked init_fields(4) e]
  by simp_all

lemma length_filter_split:
  "length (filter (\<lambda>t. P t \<and> Q t) xs) + length (filter (\<lambda>t. P t \<and> \<not> Q t) xs) = length (filter P xs)"
  by (induction xs) auto

lemma length_filter_conj_le:
  "length (filter (\<lambda>t. P t \<and> Q t \<and> R t) xs) \<le> length (filter (\<lambda>t. P t \<and> Q t) xs)"
  by (induction xs) auto

subsection \<open>The overall figures\<close>

text \<open>
  Claim C2, as the code has it by design. Whenever the tasks query succeeds,
  \<open>generateDailyReport\<close> returns a report over exactly the tasks whose \<^verbatim>\<open>updated_at\<close> is on
  the day of \<open>t0\<close> (local 00:00:00.000 through 23:59:59.999): \<open>totalTasks\<close> is their
  number, \<open>completedTasks\<close> the number with status \<^verbatim>\<open>completed\<close>, \<open>pendingTasks\<close> the
  number with another status. When each of these tasks has a due date, \<open>blockedTasks\<close> is
  the number of those not completed whose due date is earlier than \<open>now\<close>; nothing is
  said here of a task without a due date. \<open>deletedTasks\<close> is the number of \<^verbatim>\<open>regular\<close>
  rows of \<^verbatim>\<open>deleted_tasks\<close> deleted on that day when the deleted-tasks query succeeds,
  and 0 when it fails: the failure is logged and the report is returned all the same.
\<close>

theorem generateDailyReport_metrics:
  assumes "query_error be TasksUpdated = None"
  shows "\<exists>r. generateDailyReport rt be t0 now = Inr r \<and>
           totalTasks r = length (tasks_today rt be t0) \<and>
           completedTasks r = length (filter (\<lambda>t. status t = ''completed'') (tasks_today rt be t0)) \<and>
           pendingTasks r = length (filter (\<lambda>t. status t \<noteq> ''completed'') (tasks_today rt be t0)) \<and>
           ((\<forall>t \<in> set (tasks_today rt be t0). due_date t \<noteq> None) \<longrightarrow>
              blockedTasks r = length (filter (overdue now) (tasks_today rt be t0))) \<and>
           deletedTasks r =
             (if query_error be DeletedTasks = None then length (deleted_today rt be t0) else 0)"
proof -
  let ?ts = "tasks_today rt be t0"
  obtain r where r: "generateDailyReport rt be t0 now = Inr r"
    using generateDailyReport_returns [OF assms] by blast
  from generateDailyReport_Inr [OF r] obtain um where
    tot: "totalTasks r = length ?ts"
    and pen: "pendingTasks r = length (filter (\<lambda>t. status t \<noteq> ''completed'') ?ts)"
    and com: "completedTasks r = length (filter (\<lambda>t. status t = ''completed'') ?ts)"
    and blo: "blockedTasks r = length (filter (is_blocked now) ?ts)"
    and del: "deletedTasks r = length (data_or_empty (run_query be DeletedTasks (deleted_today rt be t0)))"
    by auto
  have blo': "blockedTasks r = length (filter (overdue now) ?ts)"
    if "\<forall>t \<in> set ?ts. due_date t \<noteq> None"
    using filter_is_blocked_overdue [OF that, of "\<lambda>t. True" now] by (simp add: blo)
  have del': "deletedTasks r =
           (if query_error be DeletedTasks = None then length (deleted_today rt be t0) else 0)"
    by (simp add: del run_query_def data_or_empty_def split: option.splits)
  show ?thesis using r tot com pen blo' del' by blast
qed

theorem generateDailyReport_metrics_witness:
  "query_error example_backend TasksUpdated = None \<and>
   list_all (\<lambda>t. due_date t \<noteq> None) (tasks_today example_runtime example_backend 90000000) \<and>
   generateDailyReport example_runtime example_backend 90000000 90000100 = Inr example_report \<and>
   totalTasks example_report = length (tasks_today example_runtime example_backend 90000000) \<and>
   blockedTasks example_report =
     length (filter (overdue 90000100) (tasks_today example_runtime example_backend 90000000)) \<and>
   deletedTasks example_report = length (deleted_today example_runtime example_backend 90000000)"
proof -
  have h: "query_error example_backend TasksUpdated = None"
    by (simp add: example_backend_def)
  have d: "query_error example_backend DeletedTasks = None"
    by (simp add: example_backend_def)
  have n: "\<forall>t \<in> set (tasks_today example_runtime example_backend 90000000). due_date t \<noteq> None"
    by (simp add: example_tasks_today)
  obtain r where r: "generateDailyReport example_runtime example_backend 90000000 90000100 = Inr r"
    and t: "totalTasks r = length (tasks_today example_runtime example_backend 90000000)"
    and b: "(\<forall>t \<in> set (tasks_today example_runtime example_backend 90000000). due_date t \<noteq> None) \<longrightarrow>
            blockedTasks r =
              length (filter (overdue 90000100) (tasks_today example_runtime example_backend 90000000))"
    and dl: "deletedTasks r =
       (if query_error example_backend DeletedTasks = None
        then length (deleted_today example_runtime example_backend 90000000) else 0)"
    using generateDailyReport_metrics [OF h, of example_runtime 90000000 90000100] by blast
  have "r = example_report" using r example_report_eval by simp
  then show ?thesis using h n t b dl d example_report_eval by (simp add: list_all_iff)
qed

text \<open>
  The claim as it is written promises the number of deleted rows in every report. With
  the \<^verbatim>\<open>deleted_tasks\<close> query failing, the report of the example backend says 0 although
  one regular task was deleted that day.
\<close>

theorem generateDailyReport_deleted_counterexample:
  "generateDailyReport example_runtime deleted_unreadable 90000000 90000100 =
     Inr (example_report\<lparr>deletedTasks := 0\<rparr>) \<and>
   deletedTasks (example_report\<lparr>deletedTasks := 0\<rparr>) \<noteq>
     length (deleted_today example_runtime deleted_unreadable 90000000)"
  by (simp add: deleted_unreadable_eval deleted_today_example)

subsection \<open>The per-user breakdown\<close>

text \<open>
  In a report returned by \<open>generateDailyReport\<close>, \<open>byUser\<close> has exactly one entry for each
  \<^verbatim>\<open>user_id\<close> among the tasks updated today and none for another user; in each entry
  \<open>userTasks\<close> (the entry's \<^verbatim>\<open>totalTasks\<close>) is the number of that user's tasks updated
  today, \<open>completed\<close> the number of them with status \<^verbatim>\<open>completed\<close>, \<open>pending\<close> the number
  with another status, and, when each of today's tasks has a due date, \<open>blocked\<close> the
  number of those not completed whose due date is earlier than \<open>now\<close>.
\<close>

lemma byUser_counts:
  assumes "generateDailyReport rt be t0 now = Inr r"
  shows "distinct (map userId (byUser r)) \<and>
         set (map userId (byUser r)) = user_id ` set (tasks_today rt be t0) \<and>
         (\<forall>e \<in> set (byUser r).
            userTasks e = length (filter (\<lambda>t. user_id t = userId e) (tasks_today rt be t0)) \<and>
            completed e =
              length (filter (\<lambda>t. user_id t = userId e \<and> status t = ''completed'') (tasks_today rt be t0)) \<and>
            pending e =
              length (filter (\<lambda>t. user_id t = userId e \<and> status t \<noteq> ''completed'') (tasks_today rt be t0)) \<and>
            ((\<forall>t \<in> set (tasks_today rt be t0). due_date t \<noteq> None) \<longrightarrow>
               blocked e =
                 length (filter (\<lambda>t. user_id t = userId e \<and> overdue now t) (tasks_today rt be t0))))"
proof -
  let ?ts = "tasks_today rt be t0"
  from generateDailyReport_Inr [OF assms] obtain um where
    bu: "byUser r = foldl (tally um now) [] ?ts"
    by auto
  have keys: "distinct (map userId (byUser r))"
    "set (map userId (byUser r)) = user_id ` set ?ts"
    using keys_foldl_tally [of "[]" um now ?ts] by (simp_all add: bu)
  have entries:
    "userTasks e = length (filter (\<lambda>t. user_id t = userId e) ?ts) \<and>
     completed e = length (filter (\<lambda>t. user_id t = userId e \<and> status t = ''completed'') ?ts) \<and>
     pending e = length (filter (\<lambda>t. user_id t = userId e \<and> status t \<noteq> ''completed'') ?ts) \<and>
     ((\<forall>t \<in> set ?ts. due_date t \<noteq> None) \<longrightarrow>
        blocked e = length (filter (\<lambda>t. user_id t = userId e \<and> overdue now t) ?ts))"
    if "e \<in> set (byUser r)" for e
  proof -
    have e: "e \<in> set (foldl (tally um now) [] ?ts)"
      using that by (simp add: bu)
    show ?thesis
      by (simp add: byUser_entry [OF e] filter_is_blocked_overdue)
  qed
  show ?thesis using keys entries by blast
qed

lemma no_due_date_eval:
  "generateDailyReport example_runtime no_due_date 90000000 90000100 =
     Inr \<lparr>date = ''1970-01-02'', totalTasks = 1, pendingTasks = 1, completedTasks = 0,
          blockedTasks = 1, deletedTasks = 0,
          byUser = [\<lparr>userId = ''u1'', userName = ''Ann'', userEmail = ''ann@example.org'',
                     userTasks = 1, completed = 0, pending = 1, blocked = 1\<rparr>]\<rparr>"
  by (simp add: report_defs example_runtime_def no_due_date_def example_users_def Let_def)

lemma no_due_date_today:
  "tasks_today example_runtime no_due_date 90000000 =
     [\<lparr>user_id = ''u1'', status = ''pending'', updated_at = 86400005, due_date = None\<rparr>]"
  by (simp add: tasks_today_def same_day_def ms_per_day_def example_runtime_def no_due_date_def)

text \<open>
  Claim C3: in each entry of the breakdown, \<open>blocked\<close> is the number of that user's tasks
  updated today that are not completed and have a due date earlier than the current
  time. It fails on a task without a due date: the code makes a \<^verbatim>\<open>Date\<close> of the null,
  which is the epoch, and counts the task as blocked. With one pending task of user
  \<open>u1\<close> that has no due date, the entry of \<open>u1\<close> says \<open>blocked = 1\<close> (and the report
  \<open>blockedTasks = 1\<close>), while no task of \<open>u1\<close> is overdue.
\<close>

theorem generateDailyReport_blocked_without_due_date:
  "map userId (byUser (projr (generateDailyReport example_runtime no_due_date 90000000 90000100))) =
     [''u1''] \<and>
   map blocked (byUser (projr (generateDailyReport example_runtime no_due_date 90000000 90000100))) =
     [1] \<and>
   blockedTasks (projr (generateDailyReport example_runtime no_due_date 90000000 90000100)) = 1 \<and>
   length (filter (overdue 90000100) (tasks_today example_runtime no_due_date 90000000)) = 0"
  by (simp add: no_due_date_eval no_due_date_today overdue_def)

subsection \<open>Relations between the figures\<close>

text \<open>
  Claim C9. Every report returned by \<open>generateDailyReport\<close> has
  \<open>completedTasks + pendingTasks = totalTasks\<close> and \<open>blockedTasks \<le> pendingTasks\<close>; every
  entry of \<open>byUser\<close> has \<open>completed + pending = userTasks\<close> and \<open>blocked \<le> pending\<close>; and
  the four columns of \<open>byUser\<close> sum to \<open>totalTasks\<close>, \<open>completedTasks\<close>, \<open>pendingTasks\<close> and
  \<open>blockedTasks\<close>.
\<close>

theorem generateDailyReport_relations:
  assumes "generateDailyReport rt be t0 now = Inr r"
  shows "completedTasks r + pendingTasks r = totalTasks r \<and>
         blockedTasks r \<le> pendingTasks r \<and>
         (\<forall>e \<in> set (byUser r). completed e + pending e = userTasks e \<and> blocked e \<le> pending e) \<and>
         sum_list (map userTasks (byUser r)) = totalTasks r \<and>
         sum_list (map completed (byUser r)) = completedTasks r \<and>
         sum_list (map pending (byUser r)) = pendingTasks r \<and>
         sum_list (map blocked (byUser r)) = blockedTasks r"
proof -
  let ?ts = "tasks_today rt be t0"
  from generateDailyReport_Inr [OF assms] obtain um where
    tot: "totalTasks r = length ?ts"
    and pen: "pendingTasks r = length (filter (\<lambda>t. status t \<noteq> ''completed'') ?ts)"
    and com: "completedTasks r = length (filter (\<lambda>t. status t = ''completed'') ?ts)"
    and blo: "blockedTasks r = length (filter (is_blocked now) ?ts)"
    and bu: "byUser r = foldl (tally um now) [] ?ts"
    by auto
  have overall: "completedTasks r + pendingTasks r = totalTasks r"
    using length_filter_split [of "\<lambda>t. True" "\<lambda>t. status t = ''completed''" ?ts]
    by (simp add: tot pen com)
  have overall_blocked: "blockedTasks r \<le> pendingTasks r"
    using length_filter_conj_le [of "\<lambda>t. True" "\<lambda>t. status t \<noteq> ''completed''"
        "\<lambda>t. new_Date (due_date t) < now" ?ts]
    by (simp add: pen blo is_blocked_iff [abs_def])
  have entry: "completed e + pending e = userTasks e \<and> blocked e \<le> pending e"
    if "e \<in> set (byUser r)" for e
  proof -
    have e: "e \<in> set (foldl (tally um now) [] ?ts)" using that by (simp add: bu)
    have "completed e + pending e = userTasks e"
      using length_filter_split [of "\<lambda>t. user_id t = userId e" "\<lambda>t. status t = ''completed''" ?ts]
      by (simp add: byUser_entry [OF e])
    moreover have "blocked e \<le> pending e"
      using length_filter_conj_le [of "\<lambda>t. user_id t = userId e" "\<lambda>t. status t \<noteq> ''completed''"
          "\<lambda>t. new_Date (due_date t) < now" ?ts]
      by (simp add: byUser_entry [OF e] is_blocked_iff)
    ultimately show ?thesis by simp
  qed
  have sums: "sum_list (map userTasks (byUser r)) = totalTasks r"
    "sum_list (map completed (byUser r)) = completedTasks r"
    "sum_list (map pending (byUser r)) = pendingTasks r"
    "sum_list (map blocked (byUser r)) = blockedTasks r"
    using sum_foldl_tally [OF step_userTasks init_fields(1), of um now "[]" ?ts]
      sum_foldl_tally [OF step_completed init_fields(2), of um now "[]" ?ts]
      sum_foldl_tally [OF step_pending init_fields(3), of um now "[]" ?ts]
      sum_foldl_tally [OF step_blocked init_fields(4), of um now "[]" ?ts]
    by (simp_all add: bu tot com pen blo)
  show ?thesis using overall overall_blocked entry sums by blast
qed

theorem generateDailyReport_relations_witness:
  "generateDailyReport example_runtime example_backend 90000000 90000100 = Inr example_report \<and>
   completedTasks example_report + pendingTasks example_report = totalTasks example_report \<and>
   blockedTasks example_report \<le> pendingTasks example_report \<and>
   sum_list (map blocked (byUser example_report)) = blockedTasks example_report"
  using generateDailyReport_relations [OF example_report_eval] example_report_eval
  by blast

section \<open>Properties of the digest\<close>

declare to_string.simps [simp del]

subsection \<open>Numbers\<close>

lemma to_string_small: "n < 10 \<Longrightarrow> to_string n = [char_of (48 + n)]"
  by (simp add: to_string.simps [of n])

lemma to_string_large:
  "\<not> n < 10 \<Longrightarrow> to_string n = to_string (n div 10) @ [char_of (48 + n mod 10)]"
  by (simp add: to_string.simps [of n])

lemma of_char_digit: "k < 10 \<Longrightarrow> (of_char (char_of (48 + k) :: char) :: nat) = 48 + k"
  by (simp add: of_char_of)

lemma char_of_digit_zero:
  "(k :: nat) < 10 \<Longrightarrow> (char_of (48 + k) :: char) = CHR ''0'' \<longleftrightarrow> k = 0"
proof -
  assume k: "k < 10"
  have "((char_of (48 + k) :: char) = CHR ''0'') \<longleftrightarrow>
          ((of_char (char_of (48 + k) :: char) :: nat) = of_char (CHR ''0''))"
    by (simp only: of_char_eq_iff)
  also have "\<dots> \<longleftrightarrow> k = 0" using k by (simp add: of_char_digit)
  finally show ?thesis .
qed

lemma digit_chars:
  "char_of (48 :: nat) = CHR ''0''" "char_of (49 :: nat) = CHR ''1''"
  "char_of (50 :: nat) = CHR ''2''" "char_of (51 :: nat) = CHR ''3''"
  "char_of (52 :: nat) = CHR ''4''" "char_of (53 :: nat) = CHR ''5''"
  "char_of (54 :: nat) = CHR ''6''" "char_of (55 :: nat) = CHR ''7''"
  "char_of (56 :: nat) = CHR ''8''" "char_of (57 :: nat) = CHR ''9''"
  by code_simp+

lemma to_string_nonempty: "to_string n \<noteq> []"
  by (cases "n < 10") (simp_all add: to_string_small to_string_large)

lemma to_string_digits: "list_all is_digit (to_string n)"
proof (induction n rule: to_string.induct)
  case (1 n)
  show ?case
  proof (cases "n < 10")
    case True
    then show ?thesis by (simp add: to_string_small is_digit_def of_char_digit)
  next
    case False
    have "n mod 10 < 10" by simp
    then have "is_digit (char_of (48 + n mod 10))"
      unfolding is_digit_def by (simp add: of_char_digit)
    with False "1.IH" show ?thesis by (simp add: to_string_large)
  qed
qed

lemma digits_value_snoc: "digits_value (s @ [c]) = 10 * digits_value s + (of_char c - 48)"
  by (simp add: digits_value_def)

lemma to_string_value: "digits_value (to_string n) = n"
proof (induction n rule: to_string.induct)
  case (1 n)
  show ?case
  proof (cases "n < 10")
    case True
    then show ?thesis by (simp add: to_string_small digits_value_def of_char_digit)
  next
    case False
    have "n mod 10 < 10" by simp
    then have "(of_char (char_of (48 + n mod 10) :: char) :: nat) - 48 = n mod 10"
      by (simp add: of_char_digit)
    with False "1.IH" show ?thesis by (simp add: to_string_large digits_value_snoc)
  qed
qed

lemma to_string_no_leading_zero: "0 < n \<Longrightarrow> hd (to_string n) \<noteq> CHR ''0''"
proof (induction n rule: to_string.induct)
  case (1 n)
  show ?case
  proof (cases "n < 10")
    case True
    have "(char_of (48 + n) :: char) \<noteq> CHR ''0''"
      using True "1.prems" by (simp add: char_of_digit_zero)
    with True show ?thesis by (simp add: to_string_small)
  next
    case False
    then have "0 < n div 10" by simp
    with False "1.IH" have "hd (to_string (n div 10)) \<noteq> CHR ''0''" by simp
    with False show ?thesis by (simp add: to_string_large to_string_nonempty)
  qed
qed

lemma decimal_to_string: "decimal n (to_string n)"
proof (cases "n = 0")
  case True
  then show ?thesis
    by (simp add: decimal_def to_string_small is_digit_def digits_value_def)
next
  case False
  then show ?thesis
    by (simp add: decimal_def to_string_nonempty to_string_digits to_string_value
          to_string_no_leading_zero)
qed

subsection \<open>Lines\<close>

lemma join_Cons: "join sep (l # ls) = l @ concat (map (\<lambda>x. sep @ x) ls)"
  by (induction ls arbitrary: l) simp_all

lemma sorted_by_completed:
  "sorted_wrt (\<lambda>a b. completed b \<le> completed a) (sort_key (\<lambda>u. - int (completed u)) us)"
proof -
  have "sorted (map (\<lambda>u. - int (completed u)) (sort_key (\<lambda>u. - int (completed u)) us))"
    by (rule sorted_sort_key)
  then show ?thesis
    by (simp add: sorted_map sorted_wrt_iff_nth_less)
qed

lemma example_digest:
  "formatReportMessage example_report =
     [CHR 0xF0, CHR 0x9F, CHR 0x93, CHR 0x85] @ '' Date: 1970-01-02'' @ [CHR 0x0A] @
     [CHR 0x0A] @
     [CHR 0xF0, CHR 0x9F, CHR 0x93, CHR 0x88] @ '' Overall Performance:'' @ [CHR 0x0A] @
     [CHR 0xE2, CHR 0x80, CHR 0xA2] @ '' Total Tasks Updated: 3'' @ [CHR 0x0A] @
     [CHR 0xE2, CHR 0x80, CHR 0xA2] @ '' '' @ [CHR 0xE2, CHR 0x9C, CHR 0x85] @ '' Completed: 1'' @ [CHR 0x0A] @
     [CHR 0xE2, CHR 0x80, CHR 0xA2] @ '' '' @ [CHR 0xE2, CHR 0x8F, CHR 0xB3] @ '' Pending: 2'' @ [CHR 0x0A] @
     [CHR 0xE2, CHR 0x80, CHR 0xA2] @ '' '' @ [CHR 0xF0, CHR 0x9F, CHR 0x9A, CHR 0xAB] @ '' Blocked: 1'' @ [CHR 0x0A] @
     [CHR 0xE2, CHR 0x80, CHR 0xA2] @ '' '' @
       [CHR 0xF0, CHR 0x9F, CHR 0x97, CHR 0x91, CHR 0xEF, CHR 0xB8, CHR 0x8F] @ '' Deleted: 1'' @ [CHR 0x0A] @
     [CHR 0x0A] @
     [CHR 0xF0, CHR 0x9F, CHR 0x8F, CHR 0x86] @ '' Top Performers Today:'' @ [CHR 0x0A] @
     ''1. Ann: 1/2 completed'' @ [CHR 0x0A] @
     ''2. Bob: 0/1 completed''"
  by (simp add: formatReportMessage_def report_lines_def sortedUsers_def performer_line_def
        example_report_def enumerate_eq_zip upt_rec to_string_small digit_chars Let_def
        calendar_def chart_def bullet_def check_mark_def hourglass_def no_entry_def
        wastebasket_def trophy_def)

subsection \<open>The digest\<close>

text \<open>
  Claim C6. The digest is, byte for byte: the date line, an empty line, the heading, and
  the five figures (total updated, completed, pending, blocked, deleted) in that order,
  each on its own line and each number in decimal; and then, exactly when the breakdown
  is not empty, an empty line, the Top Performers heading and one line for each of the
  first five (or fewer) users of the breakdown sorted by completed count, highest first.
  The users listed and those left out are together the users of the breakdown, no listed
  user has a lower count than a later or an unlisted one, and the line of the user of
  rank \<open>k\<close> reads \<^verbatim>\<open>k. userName: completed/totalTasks completed\<close>, the three numbers in
  decimal.
\<close>

theorem formatReportMessage_digest:
  "\<exists>top rest tot com pen blo del plines.
     mset (top @ rest) = mset (byUser r) \<and>
     length top = min 5 (length (byUser r)) \<and>
     sorted_wrt (\<lambda>a b. completed b \<le> completed a) (top @ rest) \<and>
     decimal (totalTasks r) tot \<and>
     decimal (completedTasks r) com \<and>
     decimal (pendingTasks r) pen \<and>
     decimal (blockedTasks r) blo \<and>
     decimal (deletedTasks r) del \<and>
     length plines = length top \<and>
     (\<forall>i < length top.
        \<exists>rank done total.
          decimal (i + 1) rank \<and>
          decimal (completed (top ! i)) done \<and>
          decimal (userTasks (top ! i)) total \<and>
          plines ! i =
            rank @ ''. '' @ userName (top ! i) @ '': '' @ done @ ''/'' @ total @ '' completed'') \<and>
     formatReportMessage r =
       calendar @ '' Date: '' @ date r @ [CHR 0x0A] @
       [CHR 0x0A] @
       chart @ '' Overall Performance:'' @ [CHR 0x0A] @
       bullet @ '' Total Tasks Updated: '' @ tot @ [CHR 0x0A] @
       bullet @ '' '' @ check_mark @ '' Completed: '' @ com @ [CHR 0x0A] @
       bullet @ '' '' @ hourglass @ '' Pending: '' @ pen @ [CHR 0x0A] @
       bullet @ '' '' @ no_entry @ '' Blocked: '' @ blo @ [CHR 0x0A] @
       bullet @ '' '' @ wastebasket @ '' Deleted: '' @ del @ [CHR 0x0A] @
       (if byUser r = [] then []
        else [CHR 0x0A] @ trophy @ '' Top Performers Today:'' @
             concat (map (\<lambda>l. CHR 0x0A # l) plines))"
proof -
  let ?s = "sort_key (\<lambda>u. - int (completed u)) (byUser r)"
  let ?top = "take 5 ?s"
  let ?plines = "map (\<lambda>(index, u). performer_line index u) (enumerate 0 ?top)"
  have m: "mset (?top @ drop 5 ?s) = mset (byUser r)" by simp
  have l: "length ?top = min 5 (length (byUser r))" by simp
  have o: "sorted_wrt (\<lambda>a b. completed b \<le> completed a) (?top @ drop 5 ?s)"
    using sorted_by_completed [of "byUser r"] by simp
  have pl: "length ?plines = length ?top" by simp
  have pi: "\<exists>rank done total.
          decimal (i + 1) rank \<and>
          decimal (completed (?top ! i)) done \<and>
          decimal (userTasks (?top ! i)) total \<and>
          ?plines ! i =
            rank @ ''. '' @ userName (?top ! i) @ '': '' @ done @ ''/'' @ total @ '' completed''"
    if "i < length ?top" for i
  proof -
    have "?plines ! i = performer_line i (?top ! i)"
      using that by (simp add: nth_enumerate_eq)
    then have "?plines ! i =
        to_string (i + 1) @ ''. '' @ userName (?top ! i) @ '': '' @
        to_string (completed (?top ! i)) @ ''/'' @ to_string (userTasks (?top ! i)) @ '' completed''"
      by (simp add: performer_line_def)
    then show ?thesis
      using decimal_to_string by blast
  qed
  have d: "formatReportMessage r =
       calendar @ '' Date: '' @ date r @ [CHR 0x0A] @
       [CHR 0x0A] @
       chart @ '' Overall Performance:'' @ [CHR 0x0A] @
       bullet @ '' Total Tasks Updated: '' @ to_string (totalTasks r) @ [CHR 0x0A] @
       bullet @ '' '' @ check_mark @ '' Completed: '' @ to_string (completedTasks r) @ [CHR 0x0A] @
       bullet @ '' '' @ hourglass @ '' Pending: '' @ to_string (pendingTasks r) @ [CHR 0x0A] @
       bullet @ '' '' @ no_entry @ '' Blocked: '' @ to_string (blockedTasks r) @ [CHR 0x0A] @
       bullet @ '' '' @ wastebasket @ '' Deleted: '' @ to_string (deletedTasks r) @ [CHR 0x0A] @
       (if byUser r = [] then []
        else [CHR 0x0A] @ trophy @ '' Top Performers Today:'' @
             concat (map (\<lambda>l. CHR 0x0A # l) ?plines))"
    by (simp add: formatReportMessage_def report_lines_def sortedUsers_def Let_def join_Cons
          del: join.simps)
  show ?thesis
    using m l o pl pi d decimal_to_string by blast
qed

text \<open>The digest of the example report, and the theorem at that report.\<close>

theorem formatReportMessage_digest_witness:
  "formatReportMessage example_report =
     [CHR 0xF0, CHR 0x9F, CHR 0x93, CHR 0x85] @ '' Date: 1970-01-02'' @ [CHR 0x0A] @
     [CHR 0x0A] @
     [CHR 0xF0, CHR 0x9F, CHR 0x93, CHR 0x88] @ '' Overall Performance:'' @ [CHR 0x0A] @
     [CHR 0xE2, CHR 0x80, CHR 0xA2] @ '' Total Tasks Updated: 3'' @ [CHR 0x0A] @
     [CHR 0xE2, CHR 0x80, CHR 0xA2] @ '' '' @ [CHR 0xE2, CHR 0x9C, CHR 0x85] @ '' Completed: 1'' @ [CHR 0x0A] @
     [CHR 0xE2, CHR 0x80, CHR 0xA2] @ '' '' @ [CHR 0xE2, CHR 0x8F, CHR 0xB3] @ '' Pending: 2'' @ [CHR 0x0A] @
     [CHR 0xE2, CHR 0x80, CHR 0xA2] @ '' '' @ [CHR 0xF0, CHR 0x9F, CHR 0x9A, CHR 0xAB] @ '' Blocked: 1'' @ [CHR 0x0A] @
     [CHR 0xE2, CHR 0x80, CHR 0xA2] @ '' '' @
       [CHR 0xF0, CHR 0x9F, CHR 0x97, CHR 0x91, CHR 0xEF, CHR 0xB8, CHR 0x8F] @ '' Deleted: 1'' @ [CHR 0x0A] @
     [CHR 0x0A] @
     [CHR 0xF0, CHR 0x9F, CHR 0x8F, CHR 0x86] @ '' Top Performers Today:'' @ [CHR 0x0A] @
     ''1. Ann: 1/2 completed'' @ [CHR 0x0A] @
     ''2. Bob: 0/1 completed'' \<and>
   (\<exists>top rest tot com pen blo del plines.
      mset (top @ rest) = mset (byUser example_report) \<and>
      length top = min 5 (length (byUser example_report)) \<and>
      sorted_wrt (\<lambda>a b. completed b \<le> completed a) (top @ rest) \<and>
      decimal (totalTasks example_report) tot \<and>
      decimal (completedTasks example_report) com \<and>
      decimal (pendingTasks example_report) pen \<and>
      decimal (blockedTasks example_report) blo \<and>
      decimal (deletedTasks example_report) del \<and>
      length plines = length top \<and>
      (\<forall>i < length top.
         \<exists>rank done total.
           decimal (i + 1) rank \<and>
           decimal (completed (top ! i)) done \<and>
           decimal (userTasks (top ! i)) total \<and>
           plines ! i =
             rank @ ''. '' @ userName (top ! i) @ '': '' @ done @ ''/'' @ total @ '' completed'') \<and>
      formatReportMessage example_report =
        calendar @ '' Date: '' @ date example_report @ [CHR 0x0A] @
        [CHR 0x0A] @
        chart @ '' Overall Performance:'' @ [CHR 0x0A] @
        bullet @ '' Total Tasks Updated: '' @ tot @ [CHR 0x0A] @
        bullet @ '' '' @ check_mark @ '' Completed: '' @ com @ [CHR 0x0A] @
        bullet @ '' '' @ hourglass @ '' Pending: '' @ pen @ [CHR 0x0A] @
        bullet @ '' '' @ no_entry @ '' Blocked: '' @ blo @ [CHR 0x0A] @
        bullet @ '' '' @ wastebasket @ '' Deleted: '' @ del @ [CHR 0x0A] @
        (if byUser example_report = [] then []
         else [CHR 0x0A] @ trophy @ '' Top Performers Today:'' @
              concat (map (\<lambda>l. CHR 0x0A # l) plines)))"
  using example_digest formatReportMessage_digest [of example_report]
  by (rule conjI)

section \<open>Properties of sendDailyReportToAllUsers\<close>

declare insert_loop.simps [simp del]

lemma insert_loop_batches:
  "\<exists>bs. requests (insert_loop ins ns i st) = requests st @ bs \<and>
        concat bs = drop i ns \<and>
        (\<forall>b \<in> set bs. b \<noteq> [] \<and> length b \<le> batchSize) \<and>
        stored (insert_loop ins ns i st) = stored st @ concat (filter (\<lambda>b. ins b = None) bs)"
proof (induction ins ns i st rule: insert_loop.induct)
  case (1 ins ns i st)
  show ?case
  proof (cases "i < length ns")
    case False
    then have "insert_loop ins ns i st = st"
      by (simp add: insert_loop.simps [of ins ns i st])
    with False show ?thesis by simp
  next
    case True
    let ?b = "slice ns i (i + batchSize)"
    let ?st1 = "insert_batch ins ?b st"
    have unfold: "insert_loop ins ns i st = insert_loop ins ns (i + batchSize) ?st1"
      using True by (simp add: insert_loop.simps [of ins ns i st])
    from "1.IH" [OF True] obtain bs where
      req: "requests (insert_loop ins ns (i + batchSize) ?st1) = requests ?st1 @ bs"
      and cat: "concat bs = drop (i + batchSize) ns"
      and len: "\<forall>b \<in> set bs. b \<noteq> [] \<and> length b \<le> batchSize"
      and sto: "stored (insert_loop ins ns (i + batchSize) ?st1) =
                  stored ?st1 @ concat (filter (\<lambda>b. ins b = None) bs)"
      by blast
    have b: "?b = take batchSize (drop i ns)" by (simp add: slice_def)
    have b_ne: "?b \<noteq> []" using True by (simp add: slice_def batchSize_def)
    have b_le: "length ?b \<le> batchSize" by (simp add: b)
    have st1_req: "requests ?st1 = requests st @ [?b]"
      by (simp add: insert_batch_def Let_def split: option.splits)
    have st1_sto: "stored ?st1 = stored st @ (if ins ?b = None then ?b else [])"
      by (simp add: insert_batch_def Let_def split: option.splits)
    have "concat (?b # bs) = take batchSize (drop i ns) @ drop batchSize (drop i ns)"
      by (simp add: cat slice_def add.commute)
    also have "\<dots> = drop i ns"
      by (rule append_take_drop_id)
    finally have cat': "concat (?b # bs) = drop i ns" .
    have "requests (insert_loop ins ns i st) = requests st @ (?b # bs)"
      by (simp add: unfold req st1_req)
    moreover have "\<forall>b' \<in> set (?b # bs). b' \<noteq> [] \<and> length b' \<le> batchSize"
      using len b_ne b_le by simp
    moreover have "stored (insert_loop ins ns i st) =
                     stored st @ concat (filter (\<lambda>b. ins b = None) (?b # bs))"
      by (simp add: unfold sto st1_sto)
    ultimately show ?thesis using cat' by blast
  qed
qed

lemma select_active_ok:
  "query_error be (ActiveUsers tb) = None \<Longrightarrow>
   data_or_empty (select_active be tb) = filter is_active (users_tbl be tb)"
  by (simp add: select_active_def run_query_def data_or_empty_def)

lemma map_enumerate_nth:
  "map (\<lambda>(k, u). f k u) (enumerate 0 us) = map (\<lambda>k. f k (us ! k)) [0..<length us]"
  by (rule nth_equalityI) (simp_all add: nth_enumerate_eq)

text \<open>
  Claim C5, as the code has it. When the report is generated and the three recipient
  queries succeed, \<open>sendDailyReportToAllUsers\<close> completes and has sent the
  \<^verbatim>\<open>notifications\<close> table a sequence of insert requests, each of at least one and at most
  100 rows, which one after the other are exactly one row for every active member, every
  active project manager and every active admin, in that order, none repeated or left
  out; each row has the recipient's id, the title with the report date, the digest as
  message, type \<^verbatim>\<open>report\<close> and \<open>is_read = False\<close>. The rows of every request whose insert
  succeeds are stored; a request whose insert fails is logged and stores nothing.
\<close>

theorem sendDailyReportToAllUsers_batches:
  assumes "query_error be TasksUpdated = None"
      and "query_error be (ActiveUsers Members) = None"
      and "query_error be (ActiveUsers ProjectManagers) = None"
      and "query_error be (ActiveUsers Admins) = None"
  shows "\<exists>r st' bs.
           generateDailyReport rt be t0 now = Inr r \<and>
           sendDailyReportToAllUsers rt be ins t0 now clock st = Inr st' \<and>
           requests st' = requests st @ bs \<and>
           (\<forall>b \<in> set bs. b \<noteq> [] \<and> length b \<le> 100) \<and>
           concat bs =
             map (\<lambda>k. \<lparr>n_user_id = row_id (active_recipients be ! k),
                        title = bar_chart @ '' Daily Performance Report - '' @ date r,
                        message = formatReportMessage r,
                        n_type = ''report'',
                        is_read = False,
                        created_at = clock k\<rparr>)
               [0..<length (active_recipients be)] \<and>
           map n_user_id (concat bs) = map row_id (active_recipients be) \<and>
           stored st' = stored st @ concat (filter (\<lambda>b. ins b = None) bs)"
proof -
  obtain r where r: "generateDailyReport rt be t0 now = Inr r"
    using generateDailyReport_returns [OF assms(1)] by blast
  let ?ns = "map (\<lambda>k. notification_for r clock k (active_recipients be ! k))
               [0..<length (active_recipients be)]"
  have send: "sendDailyReportToAllUsers rt be ins t0 now clock st = Inr (insert_loop ins ?ns 0 st)"
    by (simp add: sendDailyReportToAllUsers_def r Let_def select_active_ok assms(2-4)
          map_enumerate_nth flip: active_recipients_def)
  from insert_loop_batches [of ins ?ns 0 st] obtain bs where
    req: "requests (insert_loop ins ?ns 0 st) = requests st @ bs"
    and cat: "concat bs = ?ns"
    and len: "\<forall>b \<in> set bs. b \<noteq> [] \<and> length b \<le> batchSize"
    and sto: "stored (insert_loop ins ?ns 0 st) = stored st @ concat (filter (\<lambda>b. ins b = None) bs)"
    by auto
  have ids: "map n_user_id (concat bs) = map row_id (active_recipients be)"
    unfolding cat by (rule nth_equalityI) (simp_all add: notification_for_def)
  have rows: "concat bs =
             map (\<lambda>k. \<lparr>n_user_id = row_id (active_recipients be ! k),
                        title = bar_chart @ '' Daily Performance Report - '' @ date r,
                        message = formatReportMessage r,
                        n_type = ''report'',
                        is_read = False,
                        created_at = clock k\<rparr>)
               [0..<length (active_recipients be)]"
    unfolding cat by (simp add: notification_for_def)
  have len': "\<forall>b \<in> set bs. b \<noteq> [] \<and> length b \<le> 100"
    using len by (simp add: batchSize_def)
  show ?thesis
    using r send req len' rows ids sto by blast
qed

theorem sendDailyReportToAllUsers_batches_witness:
  "query_error example_backend TasksUpdated = None \<and>
   query_error example_backend (ActiveUsers Members) = None \<and>
   query_error example_backend (ActiveUsers ProjectManagers) = None \<and>
   query_error example_backend (ActiveUsers Admins) = None \<and>
   map n_user_id
     (stored (projr (sendDailyReportToAllUsers example_runtime example_backend no_insert_error
        90000000 90000100 example_clock empty_store))) =
   map row_id (active_recipients example_backend)"
proof -
  have h: "query_error example_backend TasksUpdated = None"
    "query_error example_backend (ActiveUsers Members) = None"
    "query_error example_backend (ActiveUsers ProjectManagers) = None"
    "query_error example_backend (ActiveUsers Admins) = None"
    by (simp_all add: example_backend_def)
  from sendDailyReportToAllUsers_batches [OF h, of example_runtime 90000000 90000100
      no_insert_error example_clock empty_store]
  obtain st' bs where
    send: "sendDailyReportToAllUsers example_runtime example_backend no_insert_error
             90000000 90000100 example_clock empty_store = Inr st'"
    and ids: "map n_user_id (concat bs) = map row_id (active_recipients example_backend)"
    and sto: "stored st' = stored empty_store @ concat (filter (\<lambda>b. no_insert_error b = None) bs)"
    by blast
  have "stored st' = concat bs"
    using sto by (simp add: no_insert_error_def empty_store_def)
  then show ?thesis
    using h send ids by simp
qed

lemma insert_loop_single:
  assumes "ns \<noteq> []" and "length ns \<le> batchSize"
  shows "insert_loop ins ns 0 st = insert_batch ins ns st"
proof -
  have "insert_loop ins ns 0 st = insert_loop ins ns batchSize (insert_batch ins ns st)"
    using assms by (simp add: insert_loop.simps [of ins ns 0 st] slice_def)
  also have "\<dots> = insert_batch ins ns st"
    using assms by (simp add: insert_loop.simps [of ins ns batchSize])
  finally show ?thesis .
qed

text \<open>
  The claim as it is written promises a row for every active member in every run. With
  the members query failing, the run on the example backend completes, and what it has
  sent and stored are the rows of the project manager and the admin only: the active
  member \<open>u1\<close> has none.
\<close>

theorem sendDailyReportToAllUsers_counterexample:
  "map row_id (filter is_active (users_tbl members_unreadable Members)) = [''u1''] \<and>
   \<not> isl (sendDailyReportToAllUsers example_runtime members_unreadable no_insert_error
            90000000 90000100 example_clock empty_store) \<and>
   map n_user_id
     (concat (requests (projr (sendDailyReportToAllUsers example_runtime members_unreadable
        no_insert_error 90000000 90000100 example_clock empty_store)))) = [''u2'', ''a1''] \<and>
   map n_user_id
     (stored (projr (sendDailyReportToAllUsers example_runtime members_unreadable
        no_insert_error 90000000 90000100 example_clock empty_store))) = [''u2'', ''a1'']"
proof -
  have "query_error members_unreadable TasksUpdated = None"
    by (simp add: members_unreadable_def)
  then obtain r where
    r: "generateDailyReport example_runtime members_unreadable 90000000 90000100 = Inr r"
    using generateDailyReport_returns by blast
  let ?ns = "[notification_for r example_clock 0
                \<lparr>row_id = ''u2'', row_name = ''Bob'', row_email = ''bob@example.org'', is_active = True\<rparr>,
              notification_for r example_clock 1
                \<lparr>row_id = ''a1'', row_name = ''Root'', row_email = ''root@example.org'', is_active = True\<rparr>]"
  have send: "sendDailyReportToAllUsers example_runtime members_unreadable no_insert_error
                90000000 90000100 example_clock empty_store = Inr (insert_loop no_insert_error ?ns 0 empty_store)"
  proof -
    have "data_or_empty (select_active members_unreadable Members) = []"
      "data_or_empty (select_active members_unreadable ProjectManagers) =
         [\<lparr>row_id = ''u2'', row_name = ''Bob'', row_email = ''bob@example.org'', is_active = True\<rparr>]"
      "data_or_empty (select_active members_unreadable Admins) =
         [\<lparr>row_id = ''a1'', row_name = ''Root'', row_email = ''root@example.org'', is_active = True\<rparr>]"
      by (simp_all add: select_active_def run_query_def data_or_empty_def members_unreadable_def
            example_backend_def example_users_def)
    then show ?thesis
      by (simp add: sendDailyReportToAllUsers_def r Let_def enumerate_eq_zip upt_rec)
  qed
  have loop: "insert_loop no_insert_error ?ns 0 empty_store = insert_batch no_insert_error ?ns empty_store"
    by (rule insert_loop_single) (simp_all add: batchSize_def)
  have m: "map row_id (filter is_active (users_tbl members_unreadable Members)) = [''u1'']"
    by (simp add: members_unreadable_def example_backend_def example_users_def)
  have res: "sendDailyReportToAllUsers example_runtime members_unreadable no_insert_error
               90000000 90000100 example_clock empty_store = Inr \<lparr>stored = ?ns, requests = [?ns]\<rparr>"
    unfolding send loop
    by (simp add: insert_batch_def no_insert_error_def empty_store_def Let_def)
  show ?thesis
    unfolding res using m by (simp add: notification_for_def)
qed

section \<open>Properties of the task webhooks\<close>

lemma sendTaskWebhook_cases:
  "fst (sendTaskWebhook env d) =
     Resolved (\<not> webhooks_disabled env \<and> \<not> no_url env \<and> post_ok env d)"
  by (simp add: sendTaskWebhook_def sendTaskWebhook_try_def webhooks_disabled_def no_url_def
        post_ok_def post_outcome_def current_value_def current_setting_def Let_def
        split: awaited.splits option.splits fetch_outcome.splits)

text \<open>
  Claim C7. \<open>sendTaskWebhook\<close> never throws: it always resolves to a boolean. That
  boolean is false when webhooks are disabled, when no URL is configured, when the POST
  throws and when its response is not ok; it is true exactly when webhooks are enabled,
  a URL is configured and the POST to it is answered with an ok response.
\<close>

theorem sendTaskWebhook_never_throws:
  "(\<exists>b. fst (sendTaskWebhook env d) = Resolved b) \<and>
   (webhooks_disabled env \<longrightarrow> fst (sendTaskWebhook env d) = Resolved False) \<and>
   (no_url env \<longrightarrow> fst (sendTaskWebhook env d) = Resolved False) \<and>
   (post_outcome env d = Some (Response False st) \<longrightarrow> fst (sendTaskWebhook env d) = Resolved False) \<and>
   (post_outcome env d = Some (FetchError e) \<longrightarrow> fst (sendTaskWebhook env d) = Resolved False) \<and>
   (fst (sendTaskWebhook env d) = Resolved True \<longleftrightarrow>
      \<not> webhooks_disabled env \<and> \<not> no_url env \<and>
      (\<exists>st'. post_outcome env d = Some (Response True st')))"
proof -
  have "post_ok env d \<longleftrightarrow> (\<exists>st'. post_outcome env d = Some (Response True st'))"
    by (auto simp: post_ok_def split: option.splits fetch_outcome.splits)
  then show ?thesis
    by (auto simp: sendTaskWebhook_cases post_ok_def)
qed

lemma working_env_facts:
  "\<not> webhooks_disabled working_env" "\<not> no_url working_env"
  "post_outcome working_env example_data = Some (Response False 500)"
  "\<not> post_ok working_env example_data"
  by (simp_all add: webhooks_disabled_def no_url_def post_ok_def post_outcome_def
        current_value_def current_setting_def getWebhookSetting_def working_env_def
        stored_setting_def)

theorem sendTaskWebhook_never_throws_witness:
  "\<not> post_ok working_env example_data \<and>
   post_outcome working_env example_data = Some (Response False 500) \<and>
   fst (sendTaskWebhook working_env example_data) = Resolved False"
  using sendTaskWebhook_never_throws [of working_env example_data 500] working_env_facts
  by simp

lemma getWebhookSetting_cases:
  "getWebhookSetting q t1 t2 =
     Resolved (Some (if unreadable q then default_setting t1 t2
                     else (case q of Resolved res \<Rightarrow> the (data res))))"
  by (auto simp: getWebhookSetting_def unreadable_def split: awaited.splits)

text \<open>
  Claim C10. \<open>getWebhookSetting\<close> never resolves to null and never throws. When the row
  is absent, the query returns an error or the call throws, it resolves to the default
  setting, whose value has \<open>enabled = True\<close> and the hard-coded URL; \<open>sendTaskWebhook\<close>
  then makes exactly one POST, to that URL, and resolves to whether the response was ok.
\<close>

theorem getWebhookSetting_never_null:
  "(\<exists>s. getWebhookSetting q t1 t2 = Resolved (Some s)) \<and>
   (unreadable q \<longrightarrow>
      getWebhookSetting q t1 t2 = Resolved (Some (default_setting t1 t2)) \<and>
      setting_value (default_setting t1 t2) = Some \<lparr>enabled = True, url = default_url\<rparr>) \<and>
   (unreadable (settings_query env) \<longrightarrow>
      \<not> webhooks_disabled env \<and>
      snd (sendTaskWebhook env d) = [(default_url, webhookPayload d (timestamp_now env))] \<and>
      fst (sendTaskWebhook env d) =
        Resolved (case fetch env default_url (webhookPayload d (timestamp_now env)) of
                    Response ok st \<Rightarrow> ok | FetchError e \<Rightarrow> False))"
proof -
  have a: "\<exists>s. getWebhookSetting q t1 t2 = Resolved (Some s)"
    by (simp add: getWebhookSetting_cases)
  have b: "getWebhookSetting q t1 t2 = Resolved (Some (default_setting t1 t2)) \<and>
      setting_value (default_setting t1 t2) = Some \<lparr>enabled = True, url = default_url\<rparr>"
    if "unreadable q"
    using that by (simp add: getWebhookSetting_cases default_setting_def)
  have c: "\<not> webhooks_disabled env \<and>
      snd (sendTaskWebhook env d) = [(default_url, webhookPayload d (timestamp_now env))] \<and>
      fst (sendTaskWebhook env d) =
        Resolved (case fetch env default_url (webhookPayload d (timestamp_now env)) of
                    Response ok st \<Rightarrow> ok | FetchError e \<Rightarrow> False)"
    if "unreadable (settings_query env)"
    using that
    by (simp add: sendTaskWebhook_def sendTaskWebhook_try_def getWebhookSetting_cases
          webhooks_disabled_def current_value_def current_setting_def
          default_setting_def default_url_def Let_def split: fetch_outcome.splits)
  show ?thesis using a b c by blast
qed

lemma failing_env_unreadable: "unreadable (settings_query failing_env)"
  by (simp add: unreadable_def failing_env_def)

theorem getWebhookSetting_never_null_witness:
  "unreadable (settings_query failing_env) \<and>
   getWebhookSetting (settings_query failing_env) (clock1 failing_env) (clock2 failing_env) =
     Resolved (Some (default_setting (clock1 failing_env) (clock2 failing_env))) \<and>
   snd (sendTaskWebhook failing_env example_data) =
     [(default_url, webhookPayload example_data (timestamp_now failing_env))] \<and>
   fst (sendTaskWebhook failing_env example_data) = Resolved True"
proof -
  have f: "fetch failing_env default_url (webhookPayload example_data (timestamp_now failing_env)) =
             Response True 200"
    by (simp add: failing_env_def)
  show ?thesis
    using getWebhookSetting_never_null
      [of "settings_query failing_env" "clock1 failing_env" "clock2 failing_env" failing_env example_data]
      failing_env_unreadable f
    by simp
qed

section \<open>Properties of the database function\<close>

lemma notifications_insert:
  "notifications (insert_report_notifications be tb (current_date sess now)
      (report_message (current_date sess now) (daily_counts sess be now)) (now_text sess now) s) =
   notifications s @ map (report_notification sess be now) (filter is_active (users_tbl be tb))"
  by (simp add: insert_report_notifications_def report_notification_def)

lemma other_insert:
  "http_requests (insert_report_notifications be tb d m c s) = http_requests s"
  by (simp add: insert_report_notifications_def)

lemma when_others_webhook:
  "\<exists>s'. when_others (webhook_block http u b) s = Inr s' \<and>
        notifications s' = notifications s \<and>
        http_requests s' = http_requests s @ [(u, b)]"
  by (cases "http u b") (simp_all add: when_others_def webhook_block_def Let_def)

text \<open>
  Claim C8. \<open>send_daily_performance_report\<close> always completes normally. It adds to the
  \<^verbatim>\<open>notifications\<close> table one \<^verbatim>\<open>report\<close> notification, all with the same message, for
  every active member, then every active project manager, then every active admin. It
  then makes one POST when the webhook is on, and none otherwise, where a missing or
  empty URL stands for the default URL with the webhook on. Whether the POST succeeds
  or raises makes no difference to the notifications and to normal completion.
\<close>

theorem send_daily_performance_report_completes:
  "\<exists>s'. send_daily_performance_report sess be settings http now s = Inr s' \<and>
        notifications s' =
          notifications s @
          map (report_notification sess be now) (filter is_active (users_tbl be Members)) @
          map (report_notification sess be now) (filter is_active (users_tbl be ProjectManagers)) @
          map (report_notification sess be now) (filter is_active (users_tbl be Admins)) \<and>
        map fst (http_requests s') =
          map fst (http_requests s) @ (if webhook_on settings then [webhook_target settings] else [])"
proof -
  let ?d = "current_date sess now"
  let ?c = "daily_counts sess be now"
  let ?m = "report_message ?d ?c"
  let ?s3 = "insert_report_notifications be Admins ?d ?m (now_text sess now)
              (insert_report_notifications be ProjectManagers ?d ?m (now_text sess now)
                (insert_report_notifications be Members ?d ?m (now_text sess now) s))"
  have n3: "notifications ?s3 =
          notifications s @
          map (report_notification sess be now) (filter is_active (users_tbl be Members)) @
          map (report_notification sess be now) (filter is_active (users_tbl be ProjectManagers)) @
          map (report_notification sess be now) (filter is_active (users_tbl be Admins))"
    by (simp add: notifications_insert)
  have h3: "http_requests ?s3 = http_requests s"
    by (simp add: other_insert)
  show ?thesis
  proof (cases "webhook_on settings")
    case False
    then have "send_daily_performance_report sess be settings http now s =
                 Inr (?s3\<lparr>notices := notices ?s3 @
                        [''Daily performance report sent successfully for '' @ ?d]\<rparr>)"
      by (auto simp: send_daily_performance_report_def Let_def webhook_on_def url_configured_def
            split: option.splits if_splits)
    with False n3 h3 show ?thesis by simp
  next
    case True
    let ?b = "\<lparr>p_event_type = ''daily_performance_report'', p_report_date = ?d, p_metrics = ?c,
               p_message = ?m, p_timestamp = now_text sess now,
               p_source = ''team_management_system''\<rparr>"
    from when_others_webhook [of http "webhook_target settings" ?b ?s3] obtain s4 where
      s4: "when_others (webhook_block http (webhook_target settings) ?b) ?s3 = Inr s4"
      and n4: "notifications s4 = notifications ?s3"
      and h4: "http_requests s4 = http_requests ?s3 @ [(webhook_target settings, ?b)]"
      by blast
    from True have "send_daily_performance_report sess be settings http now s =
        (case when_others (webhook_block http (webhook_target settings) ?b) ?s3 of
           Inl x \<Rightarrow> Inl x
         | Inr s4 \<Rightarrow> Inr (s4\<lparr>notices := notices s4 @
                              [''Daily performance report sent successfully for '' @ ?d]\<rparr>))"
      by (auto simp: send_daily_performance_report_def Let_def webhook_on_def url_configured_def
            webhook_target_def split: option.splits if_splits)
    then have "send_daily_performance_report sess be settings http now s =
        Inr (s4\<lparr>notices := notices s4 @
                   [''Daily performance report sent successfully for '' @ ?d]\<rparr>)"
      by (simp add: s4)
    with True n3 h3 n4 h4 show ?thesis by simp
  qed
qed

theorem send_daily_performance_report_completes_witness:
  "\<not> isl (send_daily_performance_report example_session example_backend None failing_http
            90000100 empty_state) \<and>
   map n_user_id
     (notifications (projr (send_daily_performance_report example_session example_backend None
        failing_http 90000100 empty_state))) = [''u1'', ''u2'', ''a1''] \<and>
   map fst
     (http_requests (projr (send_daily_performance_report example_session example_backend None
        failing_http 90000100 empty_state))) = [default_report_url]"
proof -
  from send_daily_performance_report_completes
    [of example_session example_backend None failing_http 90000100 empty_state]
  obtain s' where
    s': "send_daily_performance_report example_session example_backend None failing_http
           90000100 empty_state = Inr s'"
    and n: "notifications s' =
          notifications empty_state @
          map (report_notification example_session example_backend 90000100)
            (filter is_active (users_tbl example_backend Members)) @
          map (report_notification example_session example_backend 90000100)
            (filter is_active (users_tbl example_backend ProjectManagers)) @
          map (report_notification example_session example_backend 90000100)
            (filter is_active (users_tbl example_backend Admins))"
    and h: "map fst (http_requests s') =
          map fst (http_requests empty_state) @
          (if webhook_on None then [webhook_target None] else [])"
    by blast
  have "map n_user_id (notifications s') = [''u1'', ''u2'', ''a1'']"
    unfolding n
    by (simp add: empty_state_def example_backend_def example_users_def report_notification_def)
  moreover have "map fst (http_requests s') = [default_report_url]"
    unfolding h
    by (simp add: empty_state_def webhook_on_def webhook_target_def url_configured_def)
  ultimately show ?thesis by (simp add: s')
qed

subsection \<open>The database function and the TypeScript report\<close>

text \<open>
  The five figures of the TypeScript report and of the SQL function, taken at the same
  instant in the same time zone, agree when nothing was updated or deleted in the last
  second of the day after 23:59:59.000 and every task has a due date.
\<close>

lemma sql_window_same_day:
  assumes "\<not> last_second tz now x"
  shows "(date_trunc_day tz now \<le> x \<and> x \<le> date_trunc_day tz now + ms_per_day - 1000) \<longleftrightarrow>
         same_day tz x now"
proof -
  have "date_trunc_day tz now = setHours0 tz now"
    by (simp add: date_trunc_day_def setHours0_def)
  then show ?thesis
    using assms window_same_day [of tz now x]
    by (auto simp: last_second_def setHours235959999_def setHours0_idem ms_per_day_def)
qed

lemma counts_agree:
  assumes r: "generateDailyReport rt be now now = Inr r"
      and d: "query_error be DeletedTasks = None"
      and tz: "time_zone sess = tz_offset rt"
      and t1: "\<forall>t \<in> set (tasks_tbl be). \<not> last_second (tz_offset rt) now (updated_at t)"
      and t2: "\<forall>t \<in> set (tasks_tbl be). due_date t \<noteq> None"
      and d1: "\<forall>x \<in> set (deleted_tasks_tbl be). \<not> last_second (tz_offset rt) now (deleted_at x)"
  shows "totalTasks r = total_tasks_count (daily_counts sess be now) \<and>
         completedTasks r = completed_count (daily_counts sess be now) \<and>
         pendingTasks r = pending_count (daily_counts sess be now) \<and>
         blockedTasks r = blocked_count (daily_counts sess be now) \<and>
         deletedTasks r = deleted_count (daily_counts sess be now)"
proof -
  from generateDailyReport_Inr [OF r] obtain um :: "string \<rightharpoonup> string \<times> string" where
    tot: "totalTasks r = length (tasks_today rt be now)"
    and pen: "pendingTasks r = length (filter (\<lambda>t. status t \<noteq> ''completed'') (tasks_today rt be now))"
    and com: "completedTasks r = length (filter (\<lambda>t. status t = ''completed'') (tasks_today rt be now))"
    and blo: "blockedTasks r = length (filter (is_blocked now) (tasks_today rt be now))"
    and del: "deletedTasks r = length (data_or_empty (run_query be DeletedTasks (deleted_today rt be now)))"
    by auto
  have w: "(date_trunc_day (tz_offset rt) now \<le> updated_at t \<and>
            updated_at t \<le> date_trunc_day (tz_offset rt) now + ms_per_day - 1000) \<longleftrightarrow>
           same_day (tz_offset rt) (updated_at t) now" if "t \<in> set (tasks_tbl be)" for t
    using that t1 sql_window_same_day by blast
  have wd: "(date_trunc_day (tz_offset rt) now \<le> deleted_at x \<and>
            deleted_at x \<le> date_trunc_day (tz_offset rt) now + ms_per_day - 1000) \<longleftrightarrow>
           same_day (tz_offset rt) (deleted_at x) now" if "x \<in> set (deleted_tasks_tbl be)" for x
    using that d1 sql_window_same_day by blast
  have od: "is_blocked now t \<longleftrightarrow>
            status t \<noteq> ''completed'' \<and> (case due_date t of None \<Rightarrow> False | Some d \<Rightarrow> d < now)"
    if "t \<in> set (tasks_tbl be)" for t
    using that t2 by (auto simp: is_blocked_def new_Date_def split: option.splits)
  have "totalTasks r = total_tasks_count (daily_counts sess be now)"
    unfolding tot tasks_today_def daily_counts_def Let_def tz
    by (simp add: w cong: filter_cong)
  moreover have "completedTasks r = completed_count (daily_counts sess be now)"
    unfolding com tasks_today_def daily_counts_def Let_def tz
    by (simp add: w cong: filter_cong)
  moreover have "pendingTasks r = pending_count (daily_counts sess be now)"
    unfolding pen tasks_today_def daily_counts_def Let_def tz
    by (simp add: w cong: filter_cong)
  moreover have "blockedTasks r = blocked_count (daily_counts sess be now)"
    unfolding blo tasks_today_def daily_counts_def Let_def tz
    by (simp add: w od conj_commute cong: filter_cong)
  moreover have "deletedTasks r = deleted_count (daily_counts sess be now)"
    unfolding del deleted_today_def daily_counts_def Let_def tz
    by (simp add: wd d run_query_def data_or_empty_def conj_commute cong: filter_cong)
  ultimately show ?thesis by blast
qed

text \<open>
  A task updated in the last second of the day, half a second after 23:59:59, with the
  report run 200 ms later: \<open>late_backend\<close> at \<open>172799700\<close> (1970-01-02 23:59:59.700 UTC).
\<close>

lemma late_update_report:
  "generateDailyReport example_runtime late_backend 172799700 172799700 =
     Inr \<lparr>date = ''1970-01-02'', totalTasks = 1, pendingTasks = 1, completedTasks = 0,
          blockedTasks = 0, deletedTasks = 0,
          byUser = [\<lparr>userId = ''u1'', userName = ''Ann'', userEmail = ''ann@example.org'',
                     userTasks = 1, completed = 0, pending = 1, blocked = 0\<rparr>]\<rparr>"
  by (simp add: report_defs example_runtime_def late_backend_def example_users_def Let_def)

lemma late_update_counts:
  "daily_counts example_session late_backend 172799700 =
     \<lparr>total_tasks_count = 0, completed_count = 0, pending_count = 0, blocked_count = 0,
      deleted_count = 0\<rparr>"
  by (simp add: daily_counts_def date_trunc_day_def ms_per_day_def example_session_def
        late_backend_def Let_def)

text \<open>
  Claim C4: the SQL function and the TypeScript report compute equal figures over the
  same data at the same instant. It fails at \<open>late_backend\<close>: the TypeScript report
  counts the task updated at 23:59:59.500 (its window ends at 23:59:59.999), the SQL
  function does not (its window ends at 23:59:59.000), so the totals are 1 and 0, and so
  are the pending counts.
\<close>

theorem report_and_sql_counts_differ:
  "totalTasks (projr (generateDailyReport example_runtime late_backend 172799700 172799700)) = 1 \<and>
   total_tasks_count (daily_counts example_session late_backend 172799700) = 0 \<and>
   pendingTasks (projr (generateDailyReport example_runtime late_backend 172799700 172799700)) = 1 \<and>
   pending_count (daily_counts example_session late_backend 172799700) = 0"
  by (simp add: late_update_report late_update_counts)

section \<open>Properties of the live task list\<close>

text \<open>
  With no project filter and no search filter set, the handlers keep the list within
  what the fetch returns: the remaining checks of \<open>shouldInclude\<close> imply the remaining
  conditions of the query.
\<close>

lemma shouldInclude_fetched:
  assumes "\<not> truthy (f_project filters)" and "\<not> truthy (f_search filters)"
      and "shouldInclude toLowerCase filters user t"
  shows "fetched casefold filters user t"
  using assms
  by (auto simp: shouldInclude_def fetched_def fetch_conditions_def Let_def split: if_splits)

lemma handle_change_keeps_fetched:
  assumes p: "\<not> truthy (f_project filters)" and s: "\<not> truthy (f_search filters)"
      and inv: "list_all (fetched casefold filters user) tasks"
  shows "list_all (fetched casefold filters user) (handle_change toLowerCase filters user lookup ev tasks)"
proof (cases ev)
  case (INSERT i)
  then show ?thesis
    using inv shouldInclude_fetched [OF p s, of toLowerCase user _ casefold]
    by (auto simp: handle_change_def on_insert_def split: option.splits)
next
  case (UPDATE i)
  have "list_all (fetched casefold filters user) (on_update toLowerCase filters user t tasks)" for t
    using inv shouldInclude_fetched [OF p s, of toLowerCase user t casefold]
    by (auto simp: on_update_def list_all_iff split: option.splits
          dest: subsetD [OF set_update_subset_insert])
  with UPDATE inv show ?thesis
    by (simp add: handle_change_def split: option.splits)
next
  case (DELETE i)
  then show ?thesis
    using inv by (auto simp: handle_change_def on_delete_def list_all_iff)
qed

text \<open>
  Claim C1: after every realtime change, every task in the list satisfies what the fetch
  applies, each set filter and the restriction by role. It fails where an admin filters
  by project \<open>p1\<close> and a task of project \<open>p2\<close> is created. The list is empty, as the
  fetch leaves it when no task of \<open>p1\<close> exists; after the INSERT event it holds the new
  task, which the fetch would not return: the handlers check every filter but the
  project. No search filter is set, so this holds whatever the platform's lowering of
  case is.
\<close>

theorem realtime_insert_ignores_project:
  "handle_change toLowerCase project_filter admin_user example_lookup (INSERT ''t9'') [] =
     [other_project_task] \<and>
   \<not> fetched casefold project_filter admin_user other_project_task"
  by (simp add: handle_change_def example_lookup_def on_insert_def shouldInclude_def
        fetched_def fetch_conditions_def truthy_def project_filter_def admin_user_def
        other_project_task_def Let_def)

end
